theory Spec2Isabelle
  imports Complex_Main "HOL-Library.Multiset"
begin

section \<open>Driver route optimisation: the data model\<close>

text \<open>
  The development embeds the route-optimisation engine of the delivery back end:
  \<^item> \<^verbatim>\<open>server/modules/routes/utils/optimizer.js\<close> (class RouteOptimizer),
  \<^item> \<^verbatim>\<open>server/modules/routes/utils/distance-matrix.js\<close> (class DistanceMatrix),
  \<^item> the geocoder module (class Geocoder, required as \<^verbatim>\<open>./geocoder\<close>),
  \<^item> \<^verbatim>\<open>server/modules/routes/service.js\<close> (class RouteService).

  JavaScript numbers are modelled by exact numbers: counts, metres, seconds and
  timestamps (epoch milliseconds) by \<open>nat\<close> and \<open>int\<close>, coordinates, weights and scores
  by \<open>rat\<close>. Strings are byte strings. The Arabic message texts (\<^verbatim>\<open>messageAr\<close>) and the
  many order columns that no modelled function reads (customer, merchant, amounts) are
  left out of the records.
\<close>

datatype priority = LOW | NORMAL | HIGH | URGENT

datatype order_status =
  PENDING | ASSIGNED | PICKED_UP | IN_TRANSIT | DELIVERED | CANCELLED | RETURNED
  | PARTIALLY_DELIVERED

text \<open>A thrown \<^verbatim>\<open>Error\<close>, with its message.\<close>

datatype js_error = Error string

text \<open>
  The object the geocoder returns. \<^verbatim>\<open>error\<close> is the provider's status, present only on a
  freshly computed invalid result.
\<close>

record coords =
  latitude :: "rat option"
  longitude :: "rat option"
  formattedAddress :: string
  isValid :: bool
  isGeocoded :: bool
  error :: "string option"

text \<open>An order, as the optimizer reads it; \<open>order_id\<close> is its property \<^verbatim>\<open>id\<close>,
  \<open>createdAt\<close> its creation time in epoch milliseconds, and \<open>vehicleMaxUnits\<close> is
  \<^verbatim>\<open>vehicle.maxUnits\<close>.\<close>

record order =
  order_id :: string
  priority :: priority
  createdAt :: int
  deliveryAddress :: string
  coordinates :: "coords option"
  driverId :: "string option"
  status :: order_status
  vehicleMaxUnits :: "nat option"

text \<open>One entry of \<^verbatim>\<open>distanceData.distances\<close> (formatForRouteOptimization); the text and
  address fields, which nothing modelled reads, are left out.\<close>

record distance_info =
  fromOrderId :: string
  toOrderId :: string
  distanceMeters :: nat
  durationSeconds :: nat
  durationInTrafficSeconds :: nat
  fromIndex :: nat
  toIndex :: nat

section \<open>JavaScript library functions\<close>

text \<open>
  \<^verbatim>\<open>Array.prototype.sort(cmp)\<close> is a stable sort (ECMAScript 2019). For a comparator that
  is a total preorder the stably sorted arrangement is unique, so any stable algorithm
  models it; insertion from the right is used. \<open>cmp a b \<le> 0\<close> keeps \<open>a\<close> before \<open>b\<close>.
\<close>

fun insertBy :: "('a \<Rightarrow> 'a \<Rightarrow> int) \<Rightarrow> 'a \<Rightarrow> 'a list \<Rightarrow> 'a list" where
  "insertBy cmp x [] = [x]"
| "insertBy cmp x (y # ys) = (if cmp x y \<le> 0 then x # y # ys else y # insertBy cmp x ys)"

definition arraySort :: "('a \<Rightarrow> 'a \<Rightarrow> int) \<Rightarrow> 'a list \<Rightarrow> 'a list" where
  "arraySort cmp xs = foldr (insertBy cmp) xs []"

text \<open>Template literals print numbers in decimal. (\<open>digitChar\<close> is only applied to
  numbers below ten.)\<close>

definition digitChar :: "nat \<Rightarrow> char" where
  "digitChar n = ''0123456789'' ! n"

function showNat :: "nat \<Rightarrow> string" where
  "showNat n = (if n < 10 then [digitChar n] else showNat (n div 10) @ [digitChar (n mod 10)])"
  by pat_completeness auto
termination
  by (relation "measure id") auto

declare showNat.simps [simp del]

text \<open>
  \<^verbatim>\<open>String.prototype.toLowerCase\<close> and \<^verbatim>\<open>trim\<close>, on ASCII: the letters A to Z are
  lowered, and space, tab, line feed, vertical tab, form feed and carriage return are
  the white space. (Characters beyond ASCII are several bytes here and are left as
  they are.)
\<close>

definition lowerChar :: "char \<Rightarrow> char" where
  "lowerChar c =
     (case map_of (zip ''ABCDEFGHIJKLMNOPQRSTUVWXYZ'' ''abcdefghijklmnopqrstuvwxyz'') c of
        None \<Rightarrow> c
      | Some l \<Rightarrow> l)"

definition toLowerCase :: "string \<Rightarrow> string" where
  "toLowerCase s = map lowerChar s"

definition isWhiteSpace :: "char \<Rightarrow> bool" where
  "isWhiteSpace c = (c \<in> set [CHR '' '', CHR 0x09, CHR 0x0A, CHR 0x0B, CHR 0x0C, CHR 0x0D])"

definition trim :: "string \<Rightarrow> string" where
  "trim s = rev (dropWhile isWhiteSpace (rev (dropWhile isWhiteSpace s)))"

text \<open>\<^verbatim>\<open>s.includes(t)\<close>: \<open>t\<close> occurs in \<open>s\<close>.\<close>

fun startsWith :: "string \<Rightarrow> string \<Rightarrow> bool" where
  "startsWith s [] = True"
| "startsWith [] (c # t) = False"
| "startsWith (d # s) (c # t) = (d = c \<and> startsWith s t)"

fun includesStr :: "string \<Rightarrow> string \<Rightarrow> bool" where
  "includesStr [] t = (t = [])"
| "includesStr (d # s) t = (startsWith (d # s) t \<or> includesStr s t)"

section \<open>External collaborators and persistent state\<close>

text \<open>
  What the engine does not own is a parameter. \<open>geocodeApi k a\<close> is the answer of the
  geocoding provider to the \<open>k\<close>-th request (counted from 0), for address \<open>a\<close>;
  \<open>distanceMatrixApi k origins destinations\<close> likewise for the distance-matrix
  provider. \<open>None\<close> is a request that throws (network failure, unparsable body).
  \<open>md5Hex\<close> is \<^verbatim>\<open>crypto.createHash('md5')...digest('hex')\<close>, and \<open>kmToFixed2 m\<close> is
  \<^verbatim>\<open>(m / 1000).toFixed(2)\<close>, whose rounding is that of the binary floating-point
  quotient.
\<close>

record geo_result =
  lat :: rat
  lng :: rat
  formatted_address :: string

record geo_response =
  geo_status :: string
  results :: "geo_result list"

text \<open>One element of a row of the provider's matrix: with status OK it carries
  \<^verbatim>\<open>distance.value\<close>, \<^verbatim>\<open>duration.value\<close> and, when the provider sends it,
  \<^verbatim>\<open>duration_in_traffic.value\<close>; otherwise only its status.\<close>

datatype matrix_element = ElementOK nat nat "nat option" | ElementFailed string

record matrix_response =
  matrix_status :: string
  rows :: "matrix_element list list"

record point =
  orderId :: string
  pointLatitude :: "rat option"
  pointLongitude :: "rat option"
  address :: string

record env =
  geocodeApi :: "nat \<Rightarrow> string \<Rightarrow> geo_response option"
  distanceMatrixApi :: "nat \<Rightarrow> point list \<Rightarrow> point list \<Rightarrow> matrix_response option"
  md5Hex :: "string \<Rightarrow> string"
  kmToFixed2 :: "nat \<Rightarrow> string"

text \<open>A row of the table \<^verbatim>\<open>addressGeoCache\<close>, with the columns the geocoder writes and
  reads. The table is a reliable store keyed by the address hash: a failing read or
  write, which the geocoder catches and ignores, is not modelled.\<close>

record geocache_row =
  addressHash :: string
  originalAddress :: string
  rowFormattedAddress :: string
  rowLatitude :: "rat option"
  rowLongitude :: "rat option"
  rowIsValid :: bool
  rowIsGeocoded :: bool
  geocodedAt :: "int option"
  area :: string
  governorate :: string

text \<open>What calculateDeliveryDistances returns (without the raw matrix and the time of
  the computation), and a pair of weights.\<close>

record distance_data =
  distances :: "distance_info list"
  totalPoints :: nat
  successfulCalculations :: nat

record weights =
  priorityWeight :: rat
  distanceWeight :: rat

text \<open>The metadata object of an optimisation result (formatOptimizationResult adds
  \<^verbatim>\<open>optimizationVersion\<close>; the service's fallback sets \<^verbatim>\<open>fallback\<close>).\<close>

record metadata =
  metaAlgorithm :: "string option"
  metaIncludeTraffic :: "bool option"
  estimatedImprovement :: string
  distanceData :: "distance_data option"
  optimizationParams :: "weights option"
  optimizationVersion :: string
  fallback :: bool

text \<open>A row of the table \<^verbatim>\<open>routeOptimization\<close> (unique per driver) and its JSON column.\<close>

record optimization_data =
  usedMethod :: string
  dataForceRecalculate :: bool
  dataIncludeTraffic :: bool
  useGoogleMaps :: bool
  dataTotalOrders :: nat
  optimizationTimestamp :: int
  dataRealDistanceCalculated :: bool
  dataMetadata :: metadata

record route_optimization_row =
  routeOptimized :: bool
  rowOptimizedAt :: "int option"
  rowEstimatedDuration :: "string option"
  rowEstimatedDistance :: "string option"
  rowOptimizationData :: "optimization_data option"

text \<open>
  The state the functions thread: the two tables, the order table, and three
  observation counters, one per kind of request or run (they are how a theorem says
  that no provider was called and no heuristic ran).
\<close>

record world =
  addressGeoCache :: "string \<Rightarrow> geocache_row option"
  routeOptimization :: "string \<Rightarrow> route_optimization_row option"
  orderTable :: "order list"
  geocodeRequests :: nat
  distanceMatrixRequests :: nat
  heuristicRuns :: nat

section \<open>Geocoder\<close>

definition createAddressHash :: "env \<Rightarrow> string \<Rightarrow> string" where
  "createAddressHash e a = md5Hex e (trim (toLowerCase a))"

definition getCachedCoordinates :: "env \<Rightarrow> string \<Rightarrow> world \<Rightarrow> coords option" where
  "getCachedCoordinates e a w =
     (case addressGeoCache w (createAddressHash e a) of
        None \<Rightarrow> None
      | Some cached \<Rightarrow> Some \<lparr> latitude = rowLatitude cached, longitude = rowLongitude cached,
          formattedAddress = rowFormattedAddress cached, isValid = rowIsValid cached,
          isGeocoded = rowIsGeocoded cached, error = None \<rparr>)"

text \<open>\<^verbatim>\<open>areas.find(area => address.toLowerCase().includes(area.toLowerCase())) || 'Unknown'\<close>\<close>

definition extractAreaFromAddress :: "string \<Rightarrow> string" where
  "extractAreaFromAddress a =
     (case find (\<lambda>ar. includesStr (toLowerCase a) (toLowerCase ar))
        [''Zamalek'', ''Dokki'', ''Downtown'', ''Maadi'', ''Heliopolis'', ''Nasr City'',
         ''New Cairo''] of
        Some ar \<Rightarrow> ar | None \<Rightarrow> ''Unknown'')"

definition extractGovernorateFromAddress :: "string \<Rightarrow> string" where
  "extractGovernorateFromAddress a =
     (case find (\<lambda>g. includesStr (toLowerCase a) (toLowerCase g))
        [''Cairo'', ''Giza'', ''Alexandria'', ''Qalyubia''] of
        Some g \<Rightarrow> g | None \<Rightarrow> ''Cairo'')"

text \<open>The upsert: a new row on a miss, the six updated columns on a hit. \<open>now\<close> is the
  reading of the clock.\<close>

definition cacheCoordinates :: "env \<Rightarrow> int \<Rightarrow> string \<Rightarrow> coords \<Rightarrow> world \<Rightarrow> world" where
  "cacheCoordinates e now a c w =
     (let h = createAddressHash e a;
          stamp = (if isGeocoded c then Some now else None)
      in w \<lparr> addressGeoCache := (addressGeoCache w) (h \<mapsto>
           (case addressGeoCache w h of
              None \<Rightarrow> \<lparr> addressHash = h, originalAddress = a,
                  rowFormattedAddress = formattedAddress c, rowLatitude = latitude c,
                  rowLongitude = longitude c, rowIsValid = isValid c,
                  rowIsGeocoded = isGeocoded c, geocodedAt = stamp,
                  area = extractAreaFromAddress a,
                  governorate = extractGovernorateFromAddress a \<rparr>
            | Some r \<Rightarrow> r \<lparr> rowFormattedAddress := formattedAddress c,
                  rowLatitude := latitude c, rowLongitude := longitude c,
                  rowIsValid := isValid c, rowIsGeocoded := isGeocoded c,
                  geocodedAt := stamp \<rparr>)) \<rparr>)"

text \<open>
  geocodeAddress: the cache first; on a miss one request to the provider, whose answer,
  valid or not, is cached and returned. A request that throws is rethrown as
  \<^verbatim>\<open>Failed to geocode address: ...\<close> and caches nothing.
\<close>

definition geocodeAddress ::
  "env \<Rightarrow> int \<Rightarrow> string \<Rightarrow> world \<Rightarrow> (js_error + coords) \<times> world" where
  "geocodeAddress e now a w =
     (case getCachedCoordinates e a w of
        Some cached \<Rightarrow> (Inr cached, w)
      | None \<Rightarrow>
          (let w1 = w \<lparr> geocodeRequests := geocodeRequests w + 1 \<rparr> in
           case geocodeApi e (geocodeRequests w) a of
             None \<Rightarrow> (Inl (Error (''Failed to geocode address: '' @ a)), w1)
           | Some d \<Rightarrow>
               if geo_status d = ''OK'' \<and> results d \<noteq> []
               then (let location = hd (results d);
                         c = \<lparr> latitude = Some (lat location),
                                longitude = Some (lng location),
                                formattedAddress = formatted_address location,
                                isValid = True, isGeocoded = True, error = None \<rparr>
                     in (Inr c, cacheCoordinates e now a c w1))
               else (let c = \<lparr> latitude = None, longitude = None,
                                formattedAddress = a, isValid = False,
                                isGeocoded = False, error = Some (geo_status d) \<rparr>
                     in (Inr c, cacheCoordinates e now a c w1))))"

section \<open>DistanceMatrix\<close>

record matrix_result =
  matrix :: "matrix_element list list"
  totalElements :: nat
  matrixSuccessful :: nat

fun elementOK :: "matrix_element \<Rightarrow> bool" where
  "elementOK (ElementOK d t tt) = True"
| "elementOK (ElementFailed s) = False"

text \<open>processDistanceMatrixResponse keeps every element of every row, with its status,
  and counts the successful ones.\<close>

definition processDistanceMatrixResponse ::
  "matrix_response \<Rightarrow> point list \<Rightarrow> point list \<Rightarrow> matrix_result" where
  "processDistanceMatrixResponse d origins destinations =
     \<lparr> matrix = rows d, totalElements = length origins * length destinations,
       matrixSuccessful = length (filter elementOK (concat (rows d))) \<rparr>"

text \<open>
  formatForRouteOptimization: one entry per successful element off the diagonal, keyed
  by the order ids of \<^verbatim>\<open>deliveryPoints[i]\<close> and \<^verbatim>\<open>deliveryPoints[j]\<close>. Reading
  \<^verbatim>\<open>.orderId\<close> of a point beyond the end of the array is a TypeError. The traffic
  duration is \<^verbatim>\<open>durationInTraffic?.value || duration.value\<close>: a missing or zero traffic
  value gives the plain duration.
\<close>

fun formatElement ::
  "point list \<Rightarrow> nat \<Rightarrow> nat \<Rightarrow> matrix_element \<Rightarrow> js_error + distance_info list" where
  "formatElement pts i j (ElementFailed s) = Inr []"
| "formatElement pts i j (ElementOK meters dur traffic) =
     (if i = j then Inr []
      else if i < length pts \<and> j < length pts
      then Inr [\<lparr> fromOrderId = orderId (pts ! i), toOrderId = orderId (pts ! j),
                  distanceMeters = meters, durationSeconds = dur,
                  durationInTrafficSeconds =
                    (case traffic of None \<Rightarrow> dur | Some t \<Rightarrow> if t = 0 then dur else t),
                  fromIndex = i, toIndex = j \<rparr>]
      else Inl (Error ''TypeError: Cannot read properties of undefined''))"

fun collect :: "(js_error + 'a list) list \<Rightarrow> js_error + 'a list" where
  "collect [] = Inr []"
| "collect (x # xs) =
     (case x of
        Inl err \<Rightarrow> Inl err
      | Inr a \<Rightarrow> (case collect xs of Inl err \<Rightarrow> Inl err | Inr b \<Rightarrow> Inr (a @ b)))"

definition formatForRouteOptimization ::
  "matrix_result \<Rightarrow> point list \<Rightarrow> js_error + distance_info list" where
  "formatForRouteOptimization distanceResult deliveryPoints =
     collect (concat (map (\<lambda>(i, row). map (\<lambda>(j, el). formatElement deliveryPoints i j el)
                                            (enumerate 0 row))
                          (enumerate 0 (matrix distanceResult))))"

text \<open>
  calculateDeliveryDistances: fewer than two points need no request; otherwise one
  batched request (origins = destinations = the points). Every failure (a request that
  throws, a status other than OK, an error while formatting) is rethrown as
  \<^verbatim>\<open>Failed to calculate delivery distances: ...\<close>.
\<close>

definition calculateDeliveryDistances ::
  "env \<Rightarrow> point list \<Rightarrow> world \<Rightarrow> (js_error + distance_data) \<times> world" where
  "calculateDeliveryDistances e deliveryPoints w =
     (if length deliveryPoints < 2
      then (Inr \<lparr> distances = [], totalPoints = length deliveryPoints,
                  successfulCalculations = 0 \<rparr>, w)
      else
        (let w1 = w \<lparr> distanceMatrixRequests := distanceMatrixRequests w + 1 \<rparr>;
             failed = Inl (Error ''Failed to calculate delivery distances'')
         in case distanceMatrixApi e (distanceMatrixRequests w) deliveryPoints deliveryPoints of
              None \<Rightarrow> (failed, w1)
            | Some d \<Rightarrow>
                if matrix_status d = ''OK''
                then (let r = processDistanceMatrixResponse d deliveryPoints deliveryPoints
                      in case formatForRouteOptimization r deliveryPoints of
                           Inl err \<Rightarrow> (failed, w1)
                         | Inr ds \<Rightarrow>
                             (Inr \<lparr> distances = ds, totalPoints = length deliveryPoints,
                                    successfulCalculations = matrixSuccessful r \<rparr>, w1))
                else (failed, w1)))"

definition formatDuration :: "nat \<Rightarrow> string" where
  "formatDuration seconds =
     (let hours = seconds div 3600;
          minutes = (seconds mod 3600) div 60
      in if hours > 0 then showNat hours @ ''h '' @ showNat minutes @ ''m''
         else showNat minutes @ ''m'')"

record route_totals =
  totalDistanceMeters :: nat
  totalDistanceKm :: string
  totalDurationSeconds :: nat
  totalDurationMinutes :: nat
  totalDurationInTrafficSeconds :: nat
  totalDurationInTrafficMinutes :: nat
  totalDurationText :: string
  totalDurationInTrafficText :: string

text \<open>
  calculateRouteTotals walks the consecutive pairs of route points and looks each pair
  up by the \<^verbatim>\<open>index\<close> property of the two points
  (\<^verbatim>\<open>d.fromIndex === fromIndex && d.toIndex === toIndex\<close>). A route point is modelled
  by the pair of the object and its \<^verbatim>\<open>index\<close>. The loop state is the triple of the three
  running sums.
\<close>

fun routeTotalsLoop ::
  "('a \<times> nat) list \<Rightarrow> distance_info list \<Rightarrow> nat \<times> nat \<times> nat \<Rightarrow> nat \<times> nat \<times> nat" where
  "routeTotalsLoop (p # q # rest) ds (meters, dur, traffic) =
     routeTotalsLoop (q # rest) ds
       (case find (\<lambda>d. fromIndex d = snd p \<and> toIndex d = snd q) ds of
          None \<Rightarrow> (meters, dur, traffic)
        | Some d \<Rightarrow> (meters + distanceMeters d, dur + durationSeconds d,
                     traffic + durationInTrafficSeconds d))"
| "routeTotalsLoop [p] ds acc = acc"
| "routeTotalsLoop [] ds acc = acc"

definition ceilDiv60 :: "nat \<Rightarrow> nat" where
  "ceilDiv60 n = (n + 59) div 60"

definition calculateRouteTotals ::
  "env \<Rightarrow> ('a \<times> nat) list \<Rightarrow> distance_info list \<Rightarrow> route_totals" where
  "calculateRouteTotals e routePoints distanceMatrix =
     (case routeTotalsLoop routePoints distanceMatrix (0, 0, 0) of
        (totalDistance, totalDuration, totalDurationInTraffic) \<Rightarrow>
          \<lparr> totalDistanceMeters = totalDistance,
            totalDistanceKm = kmToFixed2 e totalDistance,
            totalDurationSeconds = totalDuration,
            totalDurationMinutes = ceilDiv60 totalDuration,
            totalDurationInTrafficSeconds = totalDurationInTraffic,
            totalDurationInTrafficMinutes = ceilDiv60 totalDurationInTraffic,
            totalDurationText = formatDuration totalDuration,
            totalDurationInTrafficText = formatDuration totalDurationInTraffic \<rparr>)"

section \<open>RouteOptimizer: the pure parts\<close>

text \<open>The \<^verbatim>\<open>options\<close> object of the optimizer. A field that is not given is \<open>None\<close>, or
  \<open>False\<close> for the two flags, which are only tested for truth.\<close>

record options =
  optAlgorithm :: "string option"
  includeTraffic :: bool
  useCoordinates :: bool
  vehicleCapacity :: "nat option"
  optPriorityWeight :: "rat option"
  optDistanceWeight :: "rat option"

definition PRIORITY_BASED :: string where "PRIORITY_BASED = ''priority''"
definition NEAREST_NEIGHBOR :: string where "NEAREST_NEIGHBOR = ''nearest_neighbor''"
definition GENETIC_ALGORITHM :: string where "GENETIC_ALGORITHM = ''genetic''"
definition OR_TOOLS_VRP :: string where "OR_TOOLS_VRP = ''or_tools''"
definition HYBRID :: string where "HYBRID = ''hybrid''"

text \<open>selectOptimalAlgorithm: a requested algorithm that is a non-empty string other
  than \<^verbatim>\<open>'hybrid'\<close> is returned as it is; otherwise the order count decides.\<close>

definition selectOptimalAlgorithm :: "nat \<Rightarrow> string \<Rightarrow> string" where
  "selectOptimalAlgorithm orderCount requestedAlgorithm =
     (if requestedAlgorithm \<noteq> [] \<and> requestedAlgorithm \<noteq> HYBRID then requestedAlgorithm
      else if orderCount \<le> 3 then PRIORITY_BASED
      else if orderCount \<le> 10 then NEAREST_NEIGHBOR
      else if orderCount \<le> 25 then GENETIC_ALGORITHM
      else OR_TOOLS_VRP)"

text \<open>The table \<^verbatim>\<open>{ 'URGENT': 4, 'HIGH': 3, 'NORMAL': 2, 'LOW': 1 }\<close>, named priorityOrder
  in the priority sort and priorityValues in the nearest-neighbour heuristic.\<close>

fun priorityOrder :: "priority \<Rightarrow> nat" where
  "priorityOrder URGENT = 4"
| "priorityOrder HIGH = 3"
| "priorityOrder NORMAL = 2"
| "priorityOrder LOW = 1"

fun priorityValues :: "priority \<Rightarrow> nat" where
  "priorityValues URGENT = 4"
| "priorityValues HIGH = 3"
| "priorityValues NORMAL = 2"
| "priorityValues LOW = 1"

text \<open>The comparator of priorityBasedOptimization (and of the service's basic
  algorithm): priority rank descending, then creation time ascending.\<close>

definition comparePriorityThenCreated :: "order \<Rightarrow> order \<Rightarrow> int" where
  "comparePriorityThenCreated a b =
     (if priorityOrder (priority a) \<noteq> priorityOrder (priority b)
      then int (priorityOrder (priority b)) - int (priorityOrder (priority a))
      else createdAt a - createdAt b)"

text \<open>The comparator of the nearest-neighbour heuristic: priority rank descending.\<close>

definition comparePriority :: "order \<Rightarrow> order \<Rightarrow> int" where
  "comparePriority a b =
     int (priorityValues (priority b)) - int (priorityValues (priority a))"

text \<open>\<^verbatim>\<open>distances.find(d => d.fromOrderId === from.id && d.toOrderId === to.id)\<close>\<close>

definition findDistance :: "distance_info list \<Rightarrow> string \<Rightarrow> string \<Rightarrow> distance_info option" where
  "findDistance ds fromId toId = find (\<lambda>d. fromOrderId d = fromId \<and> toOrderId d = toId) ds"

text \<open>The weighted score of a candidate, lower is better.\<close>

definition score :: "rat \<Rightarrow> rat \<Rightarrow> distance_info \<Rightarrow> order \<Rightarrow> rat" where
  "score pw dw distanceInfo candidate =
     (let normalizedDistance = of_nat (durationInTrafficSeconds distanceInfo) / 3600;
          normalizedPriority = (5 - of_nat (priorityValues (priority candidate))) / 4
      in dw * normalizedDistance + pw * normalizedPriority)"

text \<open>
  The inner \<^verbatim>\<open>for\<close> loop of nearestNeighborWithPriority over the unvisited orders. Its
  state is the pair (bestNext, bestScore); it starts as \<open>None\<close>, which stands for
  \<^verbatim>\<open>bestNext = null, bestScore = Infinity\<close>, below which every score lies. A strictly
  smaller score replaces the best so far, so the first of equal candidates stays.
\<close>

fun bestCandidate ::
  "rat \<Rightarrow> rat \<Rightarrow> distance_info list \<Rightarrow> order \<Rightarrow> order list \<Rightarrow> (order \<times> rat) option
     \<Rightarrow> (order \<times> rat) option" where
  "bestCandidate pw dw ds current [] best = best"
| "bestCandidate pw dw ds current (candidate # rest) best =
     bestCandidate pw dw ds current rest
       (case findDistance ds (order_id current) (order_id candidate) of
          None \<Rightarrow> best
        | Some distanceInfo \<Rightarrow>
            (let s = score pw dw distanceInfo candidate
             in case best of
                  None \<Rightarrow> Some (candidate, s)
                | Some (bestNext, bestScore) \<Rightarrow>
                    if s < bestScore then Some (candidate, s) else best))"

lemma bestCandidate_mem:
  "bestCandidate pw dw ds current unvisited best = Some (b, s) \<Longrightarrow>
   b \<in> set unvisited \<or> best = Some (b, s)"
proof (induction unvisited arbitrary: best)
  case Nil
  then show ?case by simp
next
  case (Cons candidate rest)
  from Cons.IH [OF Cons.prems [simplified]] show ?case
    by (auto split: option.splits if_splits simp: Let_def)
qed

lemma length_insertBy: "length (insertBy cmp x ys) = Suc (length ys)"
  by (induction ys) auto

lemma length_arraySort: "length (arraySort cmp xs) = length xs"
  by (induction xs) (auto simp: arraySort_def length_insertBy)

text \<open>
  The \<^verbatim>\<open>while (unvisited.length > 0)\<close> loop. With a best candidate it is appended and
  spliced out of \<open>unvisited\<close>; otherwise \<open>unvisited\<close> is sorted in place by priority and
  its first element is taken. \<^verbatim>\<open>indexOf\<close> finds the object itself; on values that is the
  first equal element, which is the one the scan or the sort has chosen.
\<close>

function nnLoop ::
  "rat \<Rightarrow> rat \<Rightarrow> distance_info list \<Rightarrow> order \<Rightarrow> order list \<Rightarrow> order list \<Rightarrow> order list" where
  "nnLoop pw dw ds current unvisited route =
     (if unvisited = [] then route
      else case bestCandidate pw dw ds current unvisited None of
             Some (bestNext, bestScore) \<Rightarrow>
               nnLoop pw dw ds bestNext (remove1 bestNext unvisited) (route @ [bestNext])
           | None \<Rightarrow>
               (case arraySort comparePriority unvisited of
                  nextByPriority # others \<Rightarrow>
                    nnLoop pw dw ds nextByPriority others (route @ [nextByPriority])
                | [] \<Rightarrow> route))"
  by pat_completeness auto

termination
proof (relation "measure (\<lambda>(pw, dw, ds, current, unvisited, route). length unvisited)")
  show "wf (measure (\<lambda>(pw, dw, ds, current, unvisited, route). length unvisited))"
    by simp
next
  fix pw dw :: rat and ds current and unvisited route :: "order list" and x2 bestNext bestScore
  assume "unvisited \<noteq> []"
    and "bestCandidate pw dw ds current unvisited None = Some x2"
    and "(bestNext, bestScore) = x2"
  then have "bestNext \<in> set unvisited"
    using bestCandidate_mem [of pw dw ds current unvisited None bestNext bestScore] by auto
  then show "((pw, dw, ds, bestNext, remove1 bestNext unvisited, route @ [bestNext]),
              (pw, dw, ds, current, unvisited, route))
             \<in> measure (\<lambda>(pw, dw, ds, current, unvisited, route). length unvisited)"
    using length_pos_if_in_set [of bestNext unvisited] by (simp add: length_remove1)
next
  fix pw dw :: rat and ds current and unvisited route :: "order list" and nextByPriority others
  assume "arraySort comparePriority unvisited = nextByPriority # others"
  then have "length unvisited = Suc (length others)"
    using length_arraySort [of comparePriority unvisited] by simp
  then show "((pw, dw, ds, nextByPriority, others, route @ [nextByPriority]),
              (pw, dw, ds, current, unvisited, route))
             \<in> measure (\<lambda>(pw, dw, ds, current, unvisited, route). length unvisited)"
    by simp
qed

declare nnLoop.simps [simp del]

text \<open>
  nearestNeighborWithPriority. The copy of the orders is sorted in place by priority;
  its first element starts the route. A route array holds orders; on the empty array
  \<^verbatim>\<open>sort(...)[0]\<close> is \<^verbatim>\<open>undefined\<close>, which is pushed, the splice at index -1 removes
  nothing from the empty array and the loop does not run: the result is the array
  \<^verbatim>\<open>[undefined]\<close>, here \<open>[None]\<close>. The default weights are 0.3 and 0.7.
\<close>

definition nearestNeighborWithPriority ::
  "order list \<Rightarrow> distance_info list \<Rightarrow> options \<Rightarrow> order option list" where
  "nearestNeighborWithPriority orders ds opts =
     (let pw = (case optPriorityWeight opts of None \<Rightarrow> 3 / 10 | Some x \<Rightarrow> x);
          dw = (case optDistanceWeight opts of None \<Rightarrow> 7 / 10 | Some x \<Rightarrow> x)
      in case arraySort comparePriority orders of
           [] \<Rightarrow> [None]
         | current # unvisited \<Rightarrow> map Some (nnLoop pw dw ds current unvisited [current]))"

text \<open>
  simpleNearestNeighbor: the same loop without weights. The scan keeps the candidate
  with the strictly shortest traffic duration from the current order; without any
  distance data the next order of the array is taken.
\<close>

fun nearestCandidate ::
  "distance_info list \<Rightarrow> order \<Rightarrow> order list \<Rightarrow> (order \<times> nat) option \<Rightarrow> (order \<times> nat) option" where
  "nearestCandidate ds current [] best = best"
| "nearestCandidate ds current (candidate # rest) best =
     nearestCandidate ds current rest
       (case findDistance ds (order_id current) (order_id candidate) of
          None \<Rightarrow> best
        | Some distanceInfo \<Rightarrow>
            (case best of
               None \<Rightarrow> Some (candidate, durationInTrafficSeconds distanceInfo)
             | Some (nearest, shortestDistance) \<Rightarrow>
                 if durationInTrafficSeconds distanceInfo < shortestDistance
                 then Some (candidate, durationInTrafficSeconds distanceInfo) else best))"

lemma nearestCandidate_mem:
  "nearestCandidate ds current unvisited best = Some (b, s) \<Longrightarrow>
   b \<in> set unvisited \<or> best = Some (b, s)"
proof (induction unvisited arbitrary: best)
  case Nil
  then show ?case by simp
next
  case (Cons candidate rest)
  from Cons.IH [OF Cons.prems [simplified]] show ?case
    by (auto split: option.splits if_splits)
qed

function simpleLoop ::
  "distance_info list \<Rightarrow> order \<Rightarrow> order list \<Rightarrow> order list \<Rightarrow> order list" where
  "simpleLoop ds current unvisited route =
     (case unvisited of
        [] \<Rightarrow> route
      | first # others \<Rightarrow>
          (case nearestCandidate ds current unvisited None of
             Some (nearest, shortestDistance) \<Rightarrow>
               simpleLoop ds nearest (remove1 nearest unvisited) (route @ [nearest])
           | None \<Rightarrow> simpleLoop ds first others (route @ [first])))"
  by pat_completeness auto
termination
proof (relation "measure (\<lambda>(ds, current, unvisited, route). length unvisited)")
  show "wf (measure (\<lambda>(ds, current, unvisited, route). length unvisited))"
    by simp
next
  fix ds current and unvisited route :: "order list" and first others x2 nearest shortestDistance
  assume "unvisited = first # others"
    and "nearestCandidate ds current unvisited None = Some x2"
    and "(nearest, shortestDistance) = x2"
  then have "nearest \<in> set unvisited"
    using nearestCandidate_mem [of ds current unvisited None nearest shortestDistance] by auto
  then show "((ds, nearest, remove1 nearest unvisited, route @ [nearest]),
              (ds, current, unvisited, route))
             \<in> measure (\<lambda>(ds, current, unvisited, route). length unvisited)"
    using length_pos_if_in_set [of nearest unvisited] by (simp add: length_remove1)
next
  fix ds current and unvisited route :: "order list" and first others
  assume "unvisited = first # others"
  then show "((ds, first, others, route @ [first]), (ds, current, unvisited, route))
             \<in> measure (\<lambda>(ds, current, unvisited, route). length unvisited)"
    by simp
qed

declare simpleLoop.simps [simp del]

definition simpleNearestNeighbor :: "order list \<Rightarrow> distance_info list \<Rightarrow> order option list" where
  "simpleNearestNeighbor orders ds =
     (case orders of
        [] \<Rightarrow> [None]
      | current # unvisited \<Rightarrow> map Some (simpleLoop ds current unvisited [current]))"

text \<open>The orders of a route array (everything but \<^verbatim>\<open>undefined\<close>).\<close>

fun definedStops :: "'a option list \<Rightarrow> 'a list" where
  "definedStops [] = []"
| "definedStops (None # xs) = definedStops xs"
| "definedStops (Some x # xs) = x # definedStops xs"

text \<open>calculateRouteDistance: the traffic durations of the consecutive pairs of the
  route, looked up by order id; a pair without an entry adds nothing.\<close>

fun routeDistanceLoop :: "order list \<Rightarrow> distance_info list \<Rightarrow> nat \<Rightarrow> nat" where
  "routeDistanceLoop (a # b # rest) ds totalDistance =
     routeDistanceLoop (b # rest) ds
       (case findDistance ds (order_id a) (order_id b) of
          None \<Rightarrow> totalDistance
        | Some distanceInfo \<Rightarrow> totalDistance + durationInTrafficSeconds distanceInfo)"
| "routeDistanceLoop [a] ds totalDistance = totalDistance"
| "routeDistanceLoop [] ds totalDistance = totalDistance"

definition calculateRouteDistance :: "order list \<Rightarrow> distance_info list \<Rightarrow> nat" where
  "calculateRouteDistance route ds = routeDistanceLoop route ds 0"

text \<open>An entry of \<^verbatim>\<open>optimizedSequence\<close> is the order with two more properties.\<close>

record seq_entry =
  entryOrder :: order
  sequenceNumber :: nat
  estimatedDeliveryTime :: string

record optimization_result =
  success :: bool
  algorithm :: string
  totalOrders :: nat
  optimizedSequence :: "seq_entry list"
  estimatedDuration :: string
  estimatedDistance :: string
  optimizedAt :: "int option"
  resultMetadata :: metadata
  realDistanceCalculated :: "bool option"

definition sequenceOf :: "order list \<Rightarrow> seq_entry list" where
  "sequenceOf optimizedOrders =
     map (\<lambda>(ord, index). \<lparr> entryOrder = ord, sequenceNumber = index + 1,
                            estimatedDeliveryTime = showNat ((index + 1) * 15) @ '' minutes'' \<rparr>)
         (zip optimizedOrders [0 ..< length optimizedOrders])"

text \<open>What a heuristic passes as metadata.\<close>

definition mkMetadata ::
  "string \<Rightarrow> bool \<Rightarrow> string \<Rightarrow> distance_data option \<Rightarrow> weights option \<Rightarrow> metadata" where
  "mkMetadata alg traffic improvement dd params =
     \<lparr> metaAlgorithm = Some alg, metaIncludeTraffic = Some traffic,
       estimatedImprovement = improvement, distanceData = dd, optimizationParams = params,
       optimizationVersion = [], fallback = False \<rparr>"

text \<open>
  formatOptimizationResult. Without distance data the duration and the distance are
  the estimates of 15 minutes and 5 km per order. With distance data they are taken from
  calculateRouteTotals, which is given the optimised orders, each with its position in
  the optimised array as \<^verbatim>\<open>index\<close>. (The value of calculateRouteDistance computed just
  before is not used.)
\<close>

definition formatOptimizationResult ::
  "env \<Rightarrow> int \<Rightarrow> order list \<Rightarrow> metadata \<Rightarrow> optimization_result" where
  "formatOptimizationResult e now optimizedOrders meta =
     (let result =
            \<lparr> success = True,
              algorithm = (case metaAlgorithm meta of
                             None \<Rightarrow> ''UNKNOWN''
                           | Some a \<Rightarrow> if a = [] then ''UNKNOWN'' else a),
              totalOrders = length optimizedOrders,
              optimizedSequence = sequenceOf optimizedOrders,
              estimatedDuration = showNat (length optimizedOrders * 15) @ '' minutes'',
              estimatedDistance = showNat (length optimizedOrders * 5) @ '' km'',
              optimizedAt = Some now,
              resultMetadata = meta \<lparr> optimizationVersion := ''1.0.0'' \<rparr>,
              realDistanceCalculated = None \<rparr>
      in case distanceData meta of
           None \<Rightarrow> result
         | Some dd \<Rightarrow>
             (let totals = calculateRouteTotals e
                             (zip optimizedOrders [0 ..< length optimizedOrders])
                             (distances dd)
              in result \<lparr> estimatedDuration := totalDurationInTrafficText totals,
                          estimatedDistance := totalDistanceKm totals @ '' km'',
                          realDistanceCalculated := Some True \<rparr>))"

definition createSingleOrderRoute :: "env \<Rightarrow> int \<Rightarrow> order \<Rightarrow> optimization_result" where
  "createSingleOrderRoute e now ord =
     formatOptimizationResult e now [ord]
       \<lparr> metaAlgorithm = Some ''SINGLE_ORDER'', metaIncludeTraffic = Some False,
         estimatedImprovement = ''0%'', distanceData = None, optimizationParams = None,
         optimizationVersion = [], fallback = False \<rparr>"

section \<open>RouteOptimizer: geocoding, distances and the heuristics\<close>

text \<open>geocodeOrders: an order without coordinates is geocoded; an invalid result and a
  geocoder that throws both leave \<^verbatim>\<open>coordinates: null\<close>.\<close>

fun geocodeOrders :: "env \<Rightarrow> int \<Rightarrow> order list \<Rightarrow> world \<Rightarrow> order list \<times> world" where
  "geocodeOrders e now [] w = ([], w)"
| "geocodeOrders e now (ord # rest) w =
     (case coordinates ord of
        Some c \<Rightarrow> (case geocodeOrders e now rest w of (gs, w') \<Rightarrow> (ord # gs, w'))
      | None \<Rightarrow>
          (case geocodeAddress e now (deliveryAddress ord) w of
             (Inr c, w1) \<Rightarrow>
               (case geocodeOrders e now rest w1 of
                  (gs, w2) \<Rightarrow>
                    (ord \<lparr> coordinates := (if isValid c then Some c else None) \<rparr> # gs, w2))
           | (Inl err, w1) \<Rightarrow>
               (case geocodeOrders e now rest w1 of
                  (gs, w2) \<Rightarrow> (ord \<lparr> coordinates := None \<rparr> # gs, w2))))"

text \<open>
  The delivery points of the geocoded orders:
  \<^verbatim>\<open>.filter(point => point.latitude && point.longitude)\<close> keeps a point whose latitude
  and longitude are both present and not zero. (The \<^verbatim>\<open>priority\<close> property of a point is
  dropped by DistanceMatrix and is not modelled.)
\<close>

definition truthy :: "rat option \<Rightarrow> bool" where
  "truthy x = (case x of None \<Rightarrow> False | Some v \<Rightarrow> v \<noteq> 0)"

definition toPoint :: "order \<Rightarrow> point" where
  "toPoint ord =
     \<lparr> orderId = order_id ord,
       pointLatitude = (case coordinates ord of None \<Rightarrow> None | Some c \<Rightarrow> latitude c),
       pointLongitude = (case coordinates ord of None \<Rightarrow> None | Some c \<Rightarrow> longitude c),
       address = deliveryAddress ord \<rparr>"

definition deliveryPointsOf :: "order list \<Rightarrow> point list" where
  "deliveryPointsOf orders =
     filter (\<lambda>p. truthy (pointLatitude p) \<and> truthy (pointLongitude p)) (map toPoint orders)"

text \<open>groupOrdersByPriority builds an object keyed by priority; Object.entries lists its
  keys in insertion order, so the groups are an association list in order of first
  appearance.\<close>

fun groupInsert :: "(priority \<times> order list) list \<Rightarrow> order \<Rightarrow> (priority \<times> order list) list" where
  "groupInsert [] ord = [(priority ord, [ord])]"
| "groupInsert ((p, g) # groups) ord =
     (if p = priority ord then (p, g @ [ord]) # groups else (p, g) # groupInsert groups ord)"

definition groupOrdersByPriority :: "order list \<Rightarrow> (priority \<times> order list) list" where
  "groupOrdersByPriority orders = foldl groupInsert [] orders"

definition nearestNeighborForGroup ::
  "env \<Rightarrow> order list \<Rightarrow> world \<Rightarrow> order list \<times> world" where
  "nearestNeighborForGroup e orders w =
     (if length orders \<le> 1 then (orders, w)
      else if length (deliveryPointsOf orders) < 2 then (orders, w)
      else case calculateDeliveryDistances e (deliveryPointsOf orders) w of
             (Inl err, w1) \<Rightarrow> (orders, w1)
           | (Inr dd, w1) \<Rightarrow> (definedStops (simpleNearestNeighbor orders (distances dd)), w1))"

fun optimizeGroups ::
  "env \<Rightarrow> (priority \<times> order list) list \<Rightarrow> world \<Rightarrow> order list \<times> world" where
  "optimizeGroups e [] w = ([], w)"
| "optimizeGroups e ((p, groupOrders) # groups) w =
     (if length groupOrders \<le> 1
      then (case optimizeGroups e groups w of (rest, w') \<Rightarrow> (groupOrders @ rest, w'))
      else case nearestNeighborForGroup e groupOrders w of
             (optimizedGroup, w1) \<Rightarrow>
               (case optimizeGroups e groups w1 of
                  (rest, w2) \<Rightarrow> (optimizedGroup @ rest, w2)))"

text \<open>
  priorityWithDistanceOptimization. Nothing in its \<^verbatim>\<open>try\<close> block can throw (geocodeOrders
  and nearestNeighborForGroup catch their own errors), so its \<^verbatim>\<open>catch\<close> branch has no
  counterpart here; the same holds for the \<^verbatim>\<open>catch\<close> of priorityBasedOptimization and of
  hybridOptimization.
\<close>

definition priorityWithDistanceOptimization ::
  "env \<Rightarrow> int \<Rightarrow> order list \<Rightarrow> options \<Rightarrow> world \<Rightarrow> optimization_result \<times> world" where
  "priorityWithDistanceOptimization e now orders opts w =
     (case geocodeOrders e now orders w of
        (geocodedOrders, w1) \<Rightarrow>
          (case optimizeGroups e (groupOrdersByPriority geocodedOrders) w1 of
             (optimizedGroups, w2) \<Rightarrow>
               (formatOptimizationResult e now optimizedGroups
                  (mkMetadata ''PRIORITY_WITH_DISTANCE'' (includeTraffic opts) ''15-25%''
                     None None), w2)))"

definition priorityBasedOptimization ::
  "env \<Rightarrow> int \<Rightarrow> order list \<Rightarrow> options \<Rightarrow> world \<Rightarrow> optimization_result \<times> world" where
  "priorityBasedOptimization e now orders opts w =
     (let sortedOrders = arraySort comparePriorityThenCreated orders
      in if includeTraffic opts \<or> useCoordinates opts
         then priorityWithDistanceOptimization e now sortedOrders opts w
         else (formatOptimizationResult e now sortedOrders
                 (mkMetadata PRIORITY_BASED False ''0%'' None None), w))"

text \<open>nearestNeighborOptimization: with fewer than two delivery points, or when the
  distance computation fails (the \<^verbatim>\<open>catch\<close>), the priority-based optimisation of the
  original orders.\<close>

definition nearestNeighborOptimization ::
  "env \<Rightarrow> int \<Rightarrow> order list \<Rightarrow> options \<Rightarrow> world \<Rightarrow> optimization_result \<times> world" where
  "nearestNeighborOptimization e now orders opts w =
     (case geocodeOrders e now orders w of
        (geocodedOrders, w1) \<Rightarrow>
          if length (deliveryPointsOf geocodedOrders) < 2
          then priorityBasedOptimization e now orders opts w1
          else case calculateDeliveryDistances e (deliveryPointsOf geocodedOrders) w1 of
                 (Inl err, w2) \<Rightarrow> priorityBasedOptimization e now orders opts w2
               | (Inr dd, w2) \<Rightarrow>
                   (formatOptimizationResult e now
                      (definedStops
                         (nearestNeighborWithPriority geocodedOrders (distances dd) opts))
                      (mkMetadata NEAREST_NEIGHBOR (includeTraffic opts) ''25-40%''
                         (Some dd) None), w2))"

text \<open>The four parameter sets of the multi-start run, and an attempt.\<close>

definition parameterSets :: "weights list" where
  "parameterSets =
     [\<lparr> priorityWeight = 2 / 10, distanceWeight = 8 / 10 \<rparr>,
      \<lparr> priorityWeight = 3 / 10, distanceWeight = 7 / 10 \<rparr>,
      \<lparr> priorityWeight = 4 / 10, distanceWeight = 6 / 10 \<rparr>,
      \<lparr> priorityWeight = 5 / 10, distanceWeight = 5 / 10 \<rparr>]"

definition paramsAsOptions :: "weights \<Rightarrow> options" where
  "paramsAsOptions params =
     \<lparr> optAlgorithm = None, includeTraffic = False, useCoordinates = False,
       vehicleCapacity = None, optPriorityWeight = Some (priorityWeight params),
       optDistanceWeight = Some (distanceWeight params) \<rparr>"

record attempt =
  attemptRoute :: "order list"
  attemptDistance :: nat
  attemptParams :: weights

definition runAttempt :: "order list \<Rightarrow> distance_info list \<Rightarrow> weights \<Rightarrow> attempt" where
  "runAttempt geocodedOrders ds params =
     (let route = definedStops
                    (nearestNeighborWithPriority geocodedOrders ds (paramsAsOptions params))
      in \<lparr> attemptRoute = route, attemptDistance = calculateRouteDistance route ds,
           attemptParams = params \<rparr>)"

definition compareAttempts :: "attempt \<Rightarrow> attempt \<Rightarrow> int" where
  "compareAttempts a b = int (attemptDistance a) - int (attemptDistance b)"

text \<open>
  geneticAlgorithmOptimization: one attempt per parameter set, sorted by route distance;
  the first is the best. Reading \<^verbatim>\<open>.route\<close> of the first element of an empty array would
  throw and reach the \<^verbatim>\<open>catch\<close>, as a failed distance computation does: the
  nearest-neighbour optimisation of the original orders.
\<close>

definition geneticAlgorithmOptimization ::
  "env \<Rightarrow> int \<Rightarrow> order list \<Rightarrow> options \<Rightarrow> world \<Rightarrow> optimization_result \<times> world" where
  "geneticAlgorithmOptimization e now orders opts w =
     (case geocodeOrders e now orders w of
        (geocodedOrders, w1) \<Rightarrow>
          if length (deliveryPointsOf geocodedOrders) < 2
          then priorityBasedOptimization e now orders opts w1
          else case calculateDeliveryDistances e (deliveryPointsOf geocodedOrders) w1 of
                 (Inl err, w2) \<Rightarrow> nearestNeighborOptimization e now orders opts w2
               | (Inr dd, w2) \<Rightarrow>
                   (case arraySort compareAttempts
                           (map (runAttempt geocodedOrders (distances dd)) parameterSets) of
                      bestAttempt # others \<Rightarrow>
                        (formatOptimizationResult e now (attemptRoute bestAttempt)
                           (mkMetadata GENETIC_ALGORITHM (includeTraffic opts) ''30-50%''
                              (Some dd) (Some (attemptParams bestAttempt))), w2)
                    | [] \<Rightarrow> nearestNeighborOptimization e now orders opts w2))"

text \<open>orToolsVrpOptimization returns what geneticAlgorithmOptimization returns (which
  never throws, so the \<^verbatim>\<open>catch\<close>, the same call again, is not reached).\<close>

definition orToolsVrpOptimization ::
  "env \<Rightarrow> int \<Rightarrow> order list \<Rightarrow> options \<Rightarrow> world \<Rightarrow> optimization_result \<times> world" where
  "orToolsVrpOptimization e now orders opts w = geneticAlgorithmOptimization e now orders opts w"

definition hybridOptimization ::
  "env \<Rightarrow> int \<Rightarrow> order list \<Rightarrow> options \<Rightarrow> world \<Rightarrow> optimization_result \<times> world" where
  "hybridOptimization e now orders opts w =
     (let orderCount = length orders
      in if orderCount \<le> 3 then priorityBasedOptimization e now orders opts w
         else if orderCount \<le> 10 then nearestNeighborOptimization e now orders opts w
         else geneticAlgorithmOptimization e now orders opts w)"

text \<open>
  optimizeRoute of the optimizer. No orders is an error (rethrown with the prefix
  \<^verbatim>\<open>Failed to optimize route: \<close>); one order is the single-order route; otherwise the
  selected algorithm runs, and a name that is none of the four goes to the
  \<^verbatim>\<open>default\<close> of the \<^verbatim>\<open>switch\<close>, the hybrid optimisation.
\<close>

definition optimizeRoute ::
  "env \<Rightarrow> int \<Rightarrow> order list \<Rightarrow> options \<Rightarrow> world \<Rightarrow> (js_error + optimization_result) \<times> world" where
  "optimizeRoute e now orders opts w =
     (case orders of
        [] \<Rightarrow> (Inl (Error ''Failed to optimize route: No orders provided for optimization''), w)
      | [ord] \<Rightarrow> (Inr (createSingleOrderRoute e now ord), w)
      | _ \<Rightarrow>
          (let selectedAlgorithm =
                 selectOptimalAlgorithm (length orders)
                   (case optAlgorithm opts of None \<Rightarrow> HYBRID | Some a \<Rightarrow> a);
               run = (if selectedAlgorithm = PRIORITY_BASED then priorityBasedOptimization
                      else if selectedAlgorithm = NEAREST_NEIGHBOR then nearestNeighborOptimization
                      else if selectedAlgorithm = GENETIC_ALGORITHM then geneticAlgorithmOptimization
                      else if selectedAlgorithm = OR_TOOLS_VRP then orToolsVrpOptimization
                      else hybridOptimization)
           in case run e now orders opts w of (r, w') \<Rightarrow> (Inr r, w')))"

section \<open>RouteService\<close>

text \<open>
  The database is a reliable store: a query returns what the tables hold, and the only
  error is Prisma's P2025 for deleting a record that does not exist. (The \<^verbatim>\<open>catch\<close>
  blocks that rethrow other database failures therefore have no counterpart.)
  getDriverPickedUpOrders returns the driver's orders of status PICKED_UP, ordered by
  priority descending and creation time ascending.
\<close>

definition getDriverPickedUpOrders :: "string \<Rightarrow> world \<Rightarrow> order list" where
  "getDriverPickedUpOrders driver w =
     arraySort comparePriorityThenCreated
       (filter (\<lambda>ord. driverId ord = Some driver \<and> status ord = PICKED_UP) (orderTable w))"

text \<open>The options of the service's optimizeRoute; a field that is not given takes its
  default (false, false, \<^verbatim>\<open>'HYBRID'\<close>, true).\<close>

record svc_options =
  forceRecalculate :: "bool option"
  svcIncludeTraffic :: "bool option"
  svcAlgorithm :: "string option"
  svcUseGoogleMaps :: "bool option"

record response_data =
  dataDriverId :: string
  dataRouteOptimized :: bool
  respTotalOrders :: nat
  respOptimizedSequence :: "seq_entry list option"
  respOptimizedAt :: "int option"
  respEstimatedDuration :: "string option"
  respEstimatedDistance :: "string option"
  optimizationMethod :: "string option"
  respIncludeTraffic :: "bool option"
  respRealDistanceCalculated :: "bool option"
  respEstimatedImprovement :: "string option"
  fromCache :: "bool option"

record response =
  respSuccess :: bool
  message :: string
  respData :: "response_data option"

text \<open>applyBasicOptimizationAlgorithm, the fallback: the priority sort and the estimates.\<close>

definition applyBasicOptimizationAlgorithm :: "order list \<Rightarrow> optimization_result" where
  "applyBasicOptimizationAlgorithm orders =
     (let optimizedOrders = arraySort comparePriorityThenCreated orders
      in \<lparr> success = True, algorithm = ''PRIORITY_BASED'',
           totalOrders = length optimizedOrders,
           optimizedSequence = sequenceOf optimizedOrders,
           estimatedDuration = showNat (length optimizedOrders * 15) @ '' minutes'',
           estimatedDistance = showNat (length optimizedOrders * 5) @ '' km'',
           optimizedAt = None,
           resultMetadata =
             \<lparr> metaAlgorithm = None, metaIncludeTraffic = None, estimatedImprovement = ''0%'',
               distanceData = None, optimizationParams = None,
               optimizationVersion = ''1.0.0'', fallback = True \<rparr>,
           realDistanceCalculated = Some False \<rparr>)"

text \<open>\<^verbatim>\<open>a || b\<close> on strings, numbers and optional booleans.\<close>

definition orString :: "string \<Rightarrow> string \<Rightarrow> string" where
  "orString a b = (if a = [] then b else a)"

definition orNat :: "nat \<Rightarrow> nat \<Rightarrow> nat" where
  "orNat a b = (if a = 0 then b else a)"

definition orFalse :: "bool option \<Rightarrow> bool" where
  "orFalse a = (case a of None \<Rightarrow> False | Some b \<Rightarrow> b)"

text \<open>
  The response of the cached branch: the stored row's timestamp, duration and distance,
  the present order count, and \<^verbatim>\<open>fromCache: true\<close>.
\<close>

definition cachedResponse :: "string \<Rightarrow> nat \<Rightarrow> route_optimization_row \<Rightarrow> response" where
  "cachedResponse driver orderCount existingOptimization =
     \<lparr> respSuccess = True,
       message = ''Route already optimized (use forceRecalculate=true to recalculate)'',
       respData = Some
         \<lparr> dataDriverId = driver, dataRouteOptimized = True, respTotalOrders = orderCount,
           respOptimizedSequence = None,
           respOptimizedAt = rowOptimizedAt existingOptimization,
           respEstimatedDuration = rowEstimatedDuration existingOptimization,
           respEstimatedDistance = rowEstimatedDistance existingOptimization,
           optimizationMethod = None, respIncludeTraffic = None,
           respRealDistanceCalculated = None, respEstimatedImprovement = None,
           fromCache = Some True \<rparr> \<rparr>"

text \<open>
  The heuristic run of the service: the optimizer when Google Maps is to be used and
  there is more than one order, with the basic algorithm as the fallback when it
  throws; the basic algorithm otherwise. The run is counted.
\<close>

definition runOptimization ::
  "env \<Rightarrow> int \<Rightarrow> order list \<Rightarrow> string \<Rightarrow> bool \<Rightarrow> bool \<Rightarrow> world \<Rightarrow> optimization_result \<times> world" where
  "runOptimization e now orders alg traffic maps w =
     (let w0 = w \<lparr> heuristicRuns := heuristicRuns w + 1 \<rparr>
      in if maps \<and> length orders > 1
         then (case optimizeRoute e now orders
                      \<lparr> optAlgorithm = Some alg, includeTraffic = traffic,
                        useCoordinates = False,
                        vehicleCapacity =
                          (case orders of
                             [] \<Rightarrow> None
                           | first # others \<Rightarrow>
                               (case vehicleMaxUnits first of
                                  None \<Rightarrow> None
                                | Some n \<Rightarrow> if n = 0 then None else Some n)),
                        optPriorityWeight = None, optDistanceWeight = None \<rparr> w0 of
                 (Inr r, w1) \<Rightarrow> (r, w1)
               | (Inl err, w1) \<Rightarrow> (applyBasicOptimizationAlgorithm orders, w1))
         else (applyBasicOptimizationAlgorithm orders, w0))"

text \<open>
  optimizeRoute of the service. The spread of the result's metadata into
  \<^verbatim>\<open>optimizationData\<close> overwrites \<^verbatim>\<open>includeTraffic\<close> when the metadata has it; the other
  metadata properties are kept in \<open>dataMetadata\<close>.
\<close>

definition serviceOptimizeRoute ::
  "env \<Rightarrow> int \<Rightarrow> string \<Rightarrow> svc_options \<Rightarrow> world \<Rightarrow> response \<times> world" where
  "serviceOptimizeRoute e now driver opts w =
     (let force = orFalse (forceRecalculate opts);
          traffic = orFalse (svcIncludeTraffic opts);
          alg = (case svcAlgorithm opts of None \<Rightarrow> ''HYBRID'' | Some a \<Rightarrow> a);
          maps = (case svcUseGoogleMaps opts of None \<Rightarrow> True | Some b \<Rightarrow> b);
          orders = getDriverPickedUpOrders driver w;
          orderCount = length orders
      in if orderCount = 0
         then (\<lparr> respSuccess = False, message = ''No picked up orders found for driver'',
                 respData = None \<rparr>, w)
         else case (if force then None
                    else case routeOptimization w driver of
                           None \<Rightarrow> None
                         | Some existing \<Rightarrow> if routeOptimized existing then Some existing else None) of
                Some existingOptimization \<Rightarrow> (cachedResponse driver orderCount existingOptimization, w)
              | None \<Rightarrow>
                  (case runOptimization e now orders alg traffic maps w of
                     (r, w1) \<Rightarrow>
                       (let total = orNat (totalOrders r) orderCount;
                            duration = orString (estimatedDuration r)
                                         (showNat (total * 15) @ '' minutes'');
                            distance = orString (estimatedDistance r)
                                         (showNat (total * 5) @ '' km'');
                            usedAlgorithm = orString (algorithm r)
                                      (if traffic then ''PRIORITY_TRAFFIC_BASED''
                                       else ''PRIORITY_BASED'');
                            row = \<lparr> routeOptimized = True, rowOptimizedAt = Some now,
                                    rowEstimatedDuration = Some duration,
                                    rowEstimatedDistance = Some distance,
                                    rowOptimizationData = Some
                                      \<lparr> usedMethod = usedAlgorithm,
                                        dataForceRecalculate = force,
                                        dataIncludeTraffic =
                                          (case metaIncludeTraffic (resultMetadata r) of
                                             None \<Rightarrow> traffic | Some b \<Rightarrow> b),
                                        useGoogleMaps = maps, dataTotalOrders = total,
                                        optimizationTimestamp = now,
                                        dataRealDistanceCalculated =
                                          orFalse (realDistanceCalculated r),
                                        dataMetadata = resultMetadata r \<rparr> \<rparr>
                        in (\<lparr> respSuccess = True, message = ''Route optimized successfully'',
                              respData = Some
                                \<lparr> dataDriverId = driver, dataRouteOptimized = True,
                                  respTotalOrders = total,
                                  respOptimizedSequence = Some (optimizedSequence r),
                                  respOptimizedAt = Some now,
                                  respEstimatedDuration = Some duration,
                                  respEstimatedDistance = Some distance,
                                  optimizationMethod = Some usedAlgorithm,
                                  respIncludeTraffic = Some traffic,
                                  respRealDistanceCalculated =
                                    Some (orFalse (realDistanceCalculated r)),
                                  respEstimatedImprovement =
                                    Some (orString (estimatedImprovement (resultMetadata r))
                                            ''0%''),
                                  fromCache = None \<rparr> \<rparr>,
                            w1 \<lparr> routeOptimization := (routeOptimization w1) (driver \<mapsto> row) \<rparr>))))"

text \<open>
  clearRouteOptimization: the delete; Prisma's P2025 (no such record) is answered with
  success and its own message, any other error is rethrown.
\<close>

definition prismaDelete :: "string \<Rightarrow> world \<Rightarrow> (string + unit) \<times> world" where
  "prismaDelete driver w =
     (case routeOptimization w driver of
        None \<Rightarrow> (Inl ''P2025'', w)
      | Some row \<Rightarrow> (Inr (), w \<lparr> routeOptimization := (routeOptimization w) (driver := None) \<rparr>))"

definition clearRouteOptimization :: "string \<Rightarrow> world \<Rightarrow> (js_error + response) \<times> world" where
  "clearRouteOptimization driver w =
     (case prismaDelete driver w of
        (Inr u, w1) \<Rightarrow>
          (Inr \<lparr> respSuccess = True, message = ''Route optimization cleared'',
                 respData = None \<rparr>, w1)
      | (Inl code, w1) \<Rightarrow>
          if code = ''P2025''
          then (Inr \<lparr> respSuccess = True, message = ''No route optimization to clear'',
                      respData = None \<rparr>, w1)
          else (Inl (Error ''Failed to clear route optimization''), w1))"

text \<open>Calling clear \<open>n\<close> times in a row, collecting the answers.\<close>

fun clearRepeatedly ::
  "nat \<Rightarrow> string \<Rightarrow> world \<Rightarrow> (js_error + response) list \<times> world" where
  "clearRepeatedly 0 driver w = ([], w)"
| "clearRepeatedly (Suc n) driver w =
     (case clearRouteOptimization driver w of
        (r, w1) \<Rightarrow> (case clearRepeatedly n driver w1 of (rs, w2) \<Rightarrow> (r # rs, w2)))"

text \<open>An answer that is a response with \<^verbatim>\<open>success: true\<close> (not a thrown error).\<close>

fun reportsSuccess :: "js_error + response \<Rightarrow> bool" where
  "reportsSuccess (Inr r) = respSuccess r"
| "reportsSuccess (Inl err) = False"

section \<open>Example data\<close>

text \<open>Concrete orders, options, providers and states, on which the theorems below are
  instantiated and evaluated.\<close>

definition exampleOrder :: "string \<Rightarrow> priority \<Rightarrow> int \<Rightarrow> order" where
  "exampleOrder i p t =
     \<lparr> order_id = i, priority = p, createdAt = t, deliveryAddress = ''street '' @ i,
       coordinates = None, driverId = Some ''driver-1'', status = PICKED_UP,
       vehicleMaxUnits = None \<rparr>"

definition orderA :: order where "orderA = exampleOrder ''A'' LOW 1"
definition orderB :: order where "orderB = exampleOrder ''B'' URGENT 2"
definition orderC :: order where "orderC = exampleOrder ''C'' NORMAL 3"

definition plainOptions :: options where
  "plainOptions =
     \<lparr> optAlgorithm = None, includeTraffic = False, useCoordinates = False,
       vehicleCapacity = None, optPriorityWeight = None, optDistanceWeight = None \<rparr>"

text \<open>A provider that is down, and a state with empty tables.\<close>

definition offlineEnv :: env where
  "offlineEnv =
     \<lparr> geocodeApi = (\<lambda>k a. None), distanceMatrixApi = (\<lambda>k os ds. None),
       md5Hex = (\<lambda>s. s), kmToFixed2 = (\<lambda>m. showNat (m div 1000)) \<rparr>"

definition emptyWorld :: world where
  "emptyWorld =
     \<lparr> addressGeoCache = (\<lambda>h. None), routeOptimization = (\<lambda>d. None), orderTable = [],
       geocodeRequests = 0, distanceMatrixRequests = 0, heuristicRuns = 0 \<rparr>"

text \<open>The service options with nothing given; a state in which driver-1 holds order A
  and has an optimised row; and a state in which the row is there but driver-1 holds no
  picked-up order any more.\<close>

definition noServiceOptions :: svc_options where
  "noServiceOptions =
     \<lparr> forceRecalculate = None, svcIncludeTraffic = None, svcAlgorithm = None,
       svcUseGoogleMaps = None \<rparr>"

definition storedRow :: route_optimization_row where
  "storedRow =
     \<lparr> routeOptimized = True, rowOptimizedAt = Some 1000,
       rowEstimatedDuration = Some ''15 minutes'', rowEstimatedDistance = Some ''5 km'',
       rowOptimizationData = None \<rparr>"

definition optimizedWorld :: world where
  "optimizedWorld =
     emptyWorld \<lparr> orderTable := [orderA],
                  routeOptimization := (\<lambda>d. if d = ''driver-1'' then Some storedRow else None) \<rparr>"

definition deliveredWorld :: world where
  "deliveredWorld =
     emptyWorld \<lparr> orderTable := [orderA \<lparr> status := DELIVERED \<rparr>],
                  routeOptimization := (\<lambda>d. if d = ''driver-1'' then Some storedRow else None) \<rparr>"

text \<open>
  A provider that answers. Every address but \<^verbatim>\<open>nowhere\<close> resolves; the four addresses
  \<^verbatim>\<open>street o1\<close>, \<^verbatim>\<open>street o3\<close>, \<^verbatim>\<open>street o2\<close>, \<^verbatim>\<open>street o4\<close> lie in this order along one
  road, 500 metres and 60 seconds apart, and the distance matrix of the four points (in
  the order o1, o2, o3, o4) says so, with traffic durations equal to the plain ones. The
  hash is the identity here and the kilometres are printed truncated; no theorem depends
  on either.
\<close>

definition exampleLocation :: "string \<Rightarrow> rat \<times> rat" where
  "exampleLocation a =
     (if a = ''street o1'' then (30, 3100 / 100)
      else if a = ''street o3'' then (30, 3101 / 100)
      else if a = ''street o2'' then (30, 3102 / 100)
      else if a = ''street o4'' then (30, 3103 / 100)
      else (30, 31))"

definition exampleGeocodeApi :: "nat \<Rightarrow> string \<Rightarrow> geo_response option" where
  "exampleGeocodeApi k a =
     (if a = ''nowhere'' then Some \<lparr> geo_status = ''ZERO_RESULTS'', results = [] \<rparr>
      else Some \<lparr> geo_status = ''OK'',
                  results = [\<lparr> lat = fst (exampleLocation a), lng = snd (exampleLocation a),
                              formatted_address = a \<rparr>] \<rparr>)"

definition along :: "nat \<Rightarrow> matrix_element" where
  "along n = ElementOK (500 * n) (60 * n) (Some (60 * n))"

definition exampleRows :: "matrix_element list list" where
  "exampleRows =
     [[along 0, along 2, along 1, along 3],
      [along 2, along 0, along 1, along 1],
      [along 1, along 1, along 0, along 2],
      [along 3, along 1, along 2, along 0]]"

definition exampleEnv :: env where
  "exampleEnv =
     \<lparr> geocodeApi = exampleGeocodeApi,
       distanceMatrixApi = (\<lambda>k os ds. Some \<lparr> matrix_status = ''OK'', rows = exampleRows \<rparr>),
       md5Hex = (\<lambda>s. s),
       kmToFixed2 = (\<lambda>m. showNat (m div 1000) @ ''.'' @ showNat ((m mod 1000) div 100)
                          @ showNat ((m mod 100) div 10)) \<rparr>"

section \<open>Predicates for stating the route properties\<close>

text \<open>
  \<open>chosenWell pw dw ds cur nxt later\<close>: the order \<open>nxt\<close> is a right choice after \<open>cur\<close>
  among the unvisited orders \<open>later\<close> (of which it is one). Whenever some unvisited order
  has distance data from \<open>cur\<close>, so has \<open>nxt\<close>, and no unvisited order with distance data
  scores lower; when none has, no unvisited order has a higher priority than \<open>nxt\<close>.
  \<open>greedyFrom\<close> says so of every step of a route.
\<close>

definition chosenWell ::
  "rat \<Rightarrow> rat \<Rightarrow> distance_info list \<Rightarrow> order \<Rightarrow> order \<Rightarrow> order list \<Rightarrow> bool" where
  "chosenWell pw dw ds cur nxt later =
     (list_all (\<lambda>x. case findDistance ds (order_id cur) (order_id x) of
                      None \<Rightarrow> True
                    | Some dx \<Rightarrow>
                        (case findDistance ds (order_id cur) (order_id nxt) of
                           None \<Rightarrow> False
                         | Some d \<Rightarrow> score pw dw d nxt \<le> score pw dw dx x)) later
      \<and> (list_all (\<lambda>x. findDistance ds (order_id cur) (order_id x) = None) later
           \<longrightarrow> list_all (\<lambda>x. priorityValues (priority x) \<le> priorityValues (priority nxt))
                 later))"

fun greedyFrom :: "rat \<Rightarrow> rat \<Rightarrow> distance_info list \<Rightarrow> order \<Rightarrow> order list \<Rightarrow> bool" where
  "greedyFrom pw dw ds cur [] = True"
| "greedyFrom pw dw ds cur (nxt # rest) =
     (chosenWell pw dw ds cur nxt (nxt # rest) \<and> greedyFrom pw dw ds nxt rest)"


text \<open>Three orders with partial distance data: from B there is data to A and to C,
  from A there is none.\<close>

definition partialDistances :: "distance_info list" where
  "partialDistances =
     [\<lparr> fromOrderId = ''B'', toOrderId = ''A'', distanceMeters = 5000, durationSeconds = 600,
        durationInTrafficSeconds = 600, fromIndex = 1, toIndex = 0 \<rparr>,
      \<lparr> fromOrderId = ''B'', toOrderId = ''C'', distanceMeters = 20000, durationSeconds = 2400,
        durationInTrafficSeconds = 3000, fromIndex = 1, toIndex = 2 \<rparr>]"

text \<open>
  Four orders of equal priority, held in the order o1, o2, o3, o4, whose addresses the
  example provider resolves; \<open>fourGeocoded\<close> are the orders with their coordinates, and
  \<open>fourDistances\<close> is what formatForRouteOptimization makes of the example matrix for
  them (\<open>edge a b n i j\<close>: from \<open>a\<close> to \<open>b\<close>, \<open>n\<close> stretches of the road apart). Going from
  o1 the nearest order is o3, from o3 it is o2, and o4 is left.
\<close>

definition fourOrders :: "order list" where
  "fourOrders =
     [exampleOrder ''o1'' NORMAL 1, exampleOrder ''o2'' NORMAL 2,
      exampleOrder ''o3'' NORMAL 3, exampleOrder ''o4'' NORMAL 4]"

definition resolved :: "order \<Rightarrow> order" where
  "resolved ord =
     ord \<lparr> coordinates := Some \<lparr> latitude = Some (fst (exampleLocation (deliveryAddress ord))),
                                 longitude = Some (snd (exampleLocation (deliveryAddress ord))),
                                 formattedAddress = deliveryAddress ord, isValid = True,
                                 isGeocoded = True, error = None \<rparr> \<rparr>"

definition fourGeocoded :: "order list" where
  "fourGeocoded = map resolved fourOrders"

definition edge :: "string \<Rightarrow> string \<Rightarrow> nat \<Rightarrow> nat \<Rightarrow> nat \<Rightarrow> distance_info" where
  "edge a b n i j =
     \<lparr> fromOrderId = a, toOrderId = b, distanceMeters = 500 * n, durationSeconds = 60 * n,
       durationInTrafficSeconds = 60 * n, fromIndex = i, toIndex = j \<rparr>"

definition fourDistances :: "distance_info list" where
  "fourDistances =
     [edge ''o1'' ''o2'' 2 0 1, edge ''o1'' ''o3'' 1 0 2, edge ''o1'' ''o4'' 3 0 3,
      edge ''o2'' ''o1'' 2 1 0, edge ''o2'' ''o3'' 1 1 2, edge ''o2'' ''o4'' 1 1 3,
      edge ''o3'' ''o1'' 1 2 0, edge ''o3'' ''o2'' 1 2 1, edge ''o3'' ''o4'' 2 2 3,
      edge ''o4'' ''o1'' 3 3 0, edge ''o4'' ''o2'' 1 3 1, edge ''o4'' ''o3'' 2 3 2]"

section \<open>Sorting\<close>

lemma mset_insertBy: "mset (insertBy cmp x ys) = add_mset x (mset ys)"
  by (induction ys) auto

lemma mset_arraySort: "mset (arraySort cmp xs) = mset xs"
  by (induction xs) (auto simp: arraySort_def mset_insertBy)

lemma set_insertBy: "set (insertBy cmp x ys) = insert x (set ys)"
  by (induction ys) auto

lemma set_arraySort: "set (arraySort cmp xs) = set xs"
  by (induction xs) (auto simp: arraySort_def set_insertBy)

lemma arraySort_Cons: "arraySort cmp (x # xs) = insertBy cmp x (arraySort cmp xs)"
  by (simp add: arraySort_def)

lemma arraySort_Nil: "arraySort cmp [] = []"
  by (simp add: arraySort_def)

lemma sorted_insertBy:
  assumes total: "\<And>a b. cmp a b \<le> 0 \<or> cmp b a \<le> 0"
    and trans: "\<And>a b c. cmp a b \<le> 0 \<Longrightarrow> cmp b c \<le> 0 \<Longrightarrow> cmp a c \<le> 0"
  shows "sorted_wrt (\<lambda>a b. cmp a b \<le> 0) ys \<Longrightarrow> sorted_wrt (\<lambda>a b. cmp a b \<le> 0) (insertBy cmp x ys)"
proof (induction ys)
  case Nil
  then show ?case by simp
next
  case (Cons y ys)
  show ?case
  proof (cases "cmp x y \<le> 0")
    case True
    with Cons.prems trans show ?thesis by auto
  next
    case False
    with total have "cmp y x \<le> 0" by blast
    with False Cons show ?thesis by (auto simp: set_insertBy)
  qed
qed

lemma sorted_arraySort:
  assumes total: "\<And>a b. cmp a b \<le> 0 \<or> cmp b a \<le> 0"
    and trans: "\<And>a b c. cmp a b \<le> 0 \<Longrightarrow> cmp b c \<le> 0 \<Longrightarrow> cmp a c \<le> 0"
  shows "sorted_wrt (\<lambda>a b. cmp a b \<le> 0) (arraySort cmp xs)"
  by (induction xs) (auto simp: arraySort_Nil arraySort_Cons intro: sorted_insertBy [OF total trans])

lemma filter_insertBy:
  assumes "P x \<Longrightarrow> (\<And>y. y \<in> set ys \<Longrightarrow> P y \<Longrightarrow> cmp x y \<le> 0)"
  shows "filter P (insertBy cmp x ys) = (if P x then x # filter P ys else filter P ys)"
  using assms by (induction ys) auto

lemma filter_arraySort:
  assumes "\<And>x y. P x \<Longrightarrow> P y \<Longrightarrow> cmp x y \<le> 0"
  shows "filter P (arraySort cmp xs) = filter P xs"
proof (induction xs)
  case Nil
  then show ?case by (simp add: arraySort_Nil)
next
  case (Cons x xs)
  have "filter P (insertBy cmp x (arraySort cmp xs)) =
        (if P x then x # filter P (arraySort cmp xs) else filter P (arraySort cmp xs))"
    by (rule filter_insertBy) (use assms in blast)
  with Cons show ?case by (simp add: arraySort_Cons)
qed

lemma insertBy_sorted_id:
  "(\<And>y. y \<in> set ys \<Longrightarrow> cmp x y \<le> 0) \<Longrightarrow> insertBy cmp x ys = x # ys"
  by (cases ys) auto

lemma arraySort_sorted_id:
  "sorted_wrt (\<lambda>a b. cmp a b \<le> 0) xs \<Longrightarrow> arraySort cmp xs = xs"
  by (induction xs) (auto simp: arraySort_Nil arraySort_Cons insertBy_sorted_id)

lemma comparePriorityThenCreated_le:
  "comparePriorityThenCreated a b \<le> 0 \<longleftrightarrow>
     priorityOrder (priority a) > priorityOrder (priority b) \<or>
     (priorityOrder (priority a) = priorityOrder (priority b) \<and> createdAt a \<le> createdAt b)"
  by (auto simp: comparePriorityThenCreated_def)

lemma comparePriority_le:
  "comparePriority a b \<le> 0 \<longleftrightarrow> priorityValues (priority b) \<le> priorityValues (priority a)"
  by (auto simp: comparePriority_def)

lemma sorted_priorityThenCreated:
  "sorted_wrt (\<lambda>a b. comparePriorityThenCreated a b \<le> 0) (arraySort comparePriorityThenCreated xs)"
  by (rule sorted_arraySort) (auto simp: comparePriorityThenCreated_le)

lemma sorted_comparePriority:
  "sorted_wrt (\<lambda>a b. comparePriority a b \<le> 0) (arraySort comparePriority xs)"
  by (rule sorted_arraySort) (auto simp: comparePriority_le)

lemma map_entryOrder_sequenceOf: "map entryOrder (sequenceOf xs) = xs"
proof -
  have "map entryOrder (sequenceOf xs) = map fst (zip xs [0 ..< length xs])"
    by (simp add: sequenceOf_def case_prod_unfold o_def)
  then show ?thesis by simp
qed

lemma map_sequenceNumber_sequenceOf: "map sequenceNumber (sequenceOf xs) = [1 ..< Suc (length xs)]"
proof -
  have "map sequenceNumber (sequenceOf xs) = map (\<lambda>p. Suc (snd p)) (zip xs [0 ..< length xs])"
    by (simp add: sequenceOf_def case_prod_unfold o_def)
  also have "\<dots> = map (Suc \<circ> snd) (zip xs [0 ..< length xs])"
    by (simp only: o_def)
  also have "\<dots> = map Suc (map snd (zip xs [0 ..< length xs]))"
    by (simp only: map_map)
  also have "\<dots> = map Suc [0 ..< length xs]"
    by simp
  also have "\<dots> = [1 ..< Suc (length xs)]"
    using map_Suc_upt [of 0 "length xs"] by simp
  finally show ?thesis .
qed

lemma optimizedSequence_format:
  "optimizedSequence (formatOptimizationResult e now xs meta) = sequenceOf xs"
  by (simp add: formatOptimizationResult_def Let_def split: option.splits)

section \<open>The Priority-Only heuristic\<close>

lemma priorityBased_plain:
  "\<not> includeTraffic opts \<Longrightarrow> \<not> useCoordinates opts \<Longrightarrow>
   priorityBasedOptimization e now orders opts w =
     (formatOptimizationResult e now (arraySort comparePriorityThenCreated orders)
        (mkMetadata PRIORITY_BASED False ''0%'' None None), w)"
  by (simp add: priorityBasedOptimization_def Let_def)

text \<open>
  Claim C3. Without the traffic and coordinate flags, priorityBasedOptimization (the
  Priority-Only heuristic) returns the orders stably sorted: the emitted sequence is a
  permutation of the input, it is ordered by priority rank descending (URGENT 4, HIGH 3,
  NORMAL 2, LOW 1) and, within a rank, by creation time ascending, and orders equal in
  priority and creation time keep their input order. The sequence numbers are 1, 2, ...,
  no external state is touched, and the service's basic algorithm emits the same
  sequence. For A (LOW, 1), B (URGENT, 2), C (NORMAL, 3) the sequence is B, C, A.
\<close>

theorem priority_only_sorted:
  "\<not> includeTraffic opts \<and> \<not> useCoordinates opts \<longrightarrow>
     (let r = priorityBasedOptimization e now orders opts w;
          out = map entryOrder (optimizedSequence (fst r))
      in mset out = mset orders
       \<and> sorted_wrt (\<lambda>a b. priorityOrder (priority b) < priorityOrder (priority a)
                        \<or> (priorityOrder (priority a) = priorityOrder (priority b)
                            \<and> createdAt a \<le> createdAt b)) out
       \<and> (\<forall>p t. filter (\<lambda>x. priority x = p \<and> createdAt x = t) out
                = filter (\<lambda>x. priority x = p \<and> createdAt x = t) orders)
       \<and> map sequenceNumber (optimizedSequence (fst r)) = [1 ..< Suc (length orders)]
       \<and> snd r = w
       \<and> map entryOrder (optimizedSequence (applyBasicOptimizationAlgorithm orders)) = out)
   \<and> priorityOrder URGENT = 4 \<and> priorityOrder HIGH = 3 \<and> priorityOrder NORMAL = 2
   \<and> priorityOrder LOW = 1
   \<and> map entryOrder (optimizedSequence (fst
         (priorityBasedOptimization e now [orderA, orderB, orderC] plainOptions w)))
       = [orderB, orderC, orderA]"
proof -
  let ?s = "arraySort comparePriorityThenCreated orders"
  have perm: "mset ?s = mset orders"
    by (rule mset_arraySort)
  have srt: "sorted_wrt (\<lambda>a b. priorityOrder (priority b) < priorityOrder (priority a)
                        \<or> (priorityOrder (priority a) = priorityOrder (priority b)
                            \<and> createdAt a \<le> createdAt b)) ?s"
    using sorted_priorityThenCreated [of orders]
    by (simp add: comparePriorityThenCreated_le)
  have stable: "filter (\<lambda>x. priority x = p \<and> createdAt x = t) ?s
                = filter (\<lambda>x. priority x = p \<and> createdAt x = t) orders" for p t
    by (rule filter_arraySort) (simp add: comparePriorityThenCreated_def)
  have len: "length ?s = length orders"
    by (rule length_arraySort)
  have basic: "map entryOrder (optimizedSequence (applyBasicOptimizationAlgorithm orders)) = ?s"
    by (simp add: applyBasicOptimizationAlgorithm_def Let_def map_entryOrder_sequenceOf)
  have ex: "arraySort comparePriorityThenCreated [orderA, orderB, orderC] = [orderB, orderC, orderA]"
    by (simp add: arraySort_def comparePriorityThenCreated_def orderA_def orderB_def orderC_def
        exampleOrder_def)
  have plain: "\<not> includeTraffic plainOptions" "\<not> useCoordinates plainOptions"
    by (simp_all add: plainOptions_def)
  have general: "(let r = priorityBasedOptimization e now orders opts w;
          out = map entryOrder (optimizedSequence (fst r))
      in mset out = mset orders
       \<and> sorted_wrt (\<lambda>a b. priorityOrder (priority b) < priorityOrder (priority a)
                        \<or> (priorityOrder (priority a) = priorityOrder (priority b)
                            \<and> createdAt a \<le> createdAt b)) out
       \<and> (\<forall>p t. filter (\<lambda>x. priority x = p \<and> createdAt x = t) out
                = filter (\<lambda>x. priority x = p \<and> createdAt x = t) orders)
       \<and> map sequenceNumber (optimizedSequence (fst r)) = [1 ..< Suc (length orders)]
       \<and> snd r = w
       \<and> map entryOrder (optimizedSequence (applyBasicOptimizationAlgorithm orders)) = out)"
    if "\<not> includeTraffic opts \<and> \<not> useCoordinates opts"
  proof -
    have out: "map entryOrder (optimizedSequence (fst (priorityBasedOptimization e now orders opts w))) = ?s"
      using that
      by (simp add: priorityBased_plain optimizedSequence_format map_entryOrder_sequenceOf)
    have nums: "map sequenceNumber (optimizedSequence (fst (priorityBasedOptimization e now orders opts w)))
                = [1 ..< Suc (length orders)]"
      using that len
      by (simp add: priorityBased_plain optimizedSequence_format map_sequenceNumber_sequenceOf)
    have same: "snd (priorityBasedOptimization e now orders opts w) = w"
      using that by (simp add: priorityBased_plain)
    show ?thesis
      unfolding Let_def out nums same basic
      using perm srt stable by blast
  qed
  have example: "map entryOrder (optimizedSequence (fst
         (priorityBasedOptimization e now [orderA, orderB, orderC] plainOptions w)))
       = [orderB, orderC, orderA]"
    using ex
    by (simp add: priorityBased_plain plain optimizedSequence_format map_entryOrder_sequenceOf)
  show ?thesis
    using general example by simp
qed

theorem priority_only_sorted_witness:
  "\<not> includeTraffic plainOptions \<and> \<not> useCoordinates plainOptions
   \<and> map entryOrder (optimizedSequence (fst
         (priorityBasedOptimization offlineEnv 0 [orderC, orderA, orderB] plainOptions emptyWorld)))
       = [orderB, orderC, orderA]
   \<and> snd (priorityBasedOptimization offlineEnv 0 [orderC, orderA, orderB] plainOptions emptyWorld)
       = emptyWorld"
proof -
  have plain: "\<not> includeTraffic plainOptions \<and> \<not> useCoordinates plainOptions"
    by (simp add: plainOptions_def)
  have ex: "arraySort comparePriorityThenCreated [orderC, orderA, orderB] = [orderB, orderC, orderA]"
    by (simp add: arraySort_def comparePriorityThenCreated_def orderA_def orderB_def orderC_def
        exampleOrder_def)
  show ?thesis
    using plain ex
      priority_only_sorted [of plainOptions offlineEnv 0 "[orderC, orderA, orderB]" emptyWorld]
    by (simp add: Let_def priorityBased_plain optimizedSequence_format map_entryOrder_sequenceOf)
qed

section \<open>Algorithm selection\<close>

lemma selectOptimalAlgorithm_hybrid:
  "selectOptimalAlgorithm n HYBRID =
     (if n \<le> 3 then PRIORITY_BASED else if n \<le> 10 then NEAREST_NEIGHBOR
      else if n \<le> 25 then GENETIC_ALGORITHM else OR_TOOLS_VRP)"
  by (simp add: selectOptimalAlgorithm_def)

lemma optimizeRoute_many:
  "2 \<le> length orders \<Longrightarrow>
   optimizeRoute e now orders opts w =
     (let selectedAlgorithm =
            selectOptimalAlgorithm (length orders)
              (case optAlgorithm opts of None \<Rightarrow> HYBRID | Some a \<Rightarrow> a);
          run = (if selectedAlgorithm = PRIORITY_BASED then priorityBasedOptimization
                 else if selectedAlgorithm = NEAREST_NEIGHBOR then nearestNeighborOptimization
                 else if selectedAlgorithm = GENETIC_ALGORITHM then geneticAlgorithmOptimization
                 else if selectedAlgorithm = OR_TOOLS_VRP then orToolsVrpOptimization
                 else hybridOptimization)
      in case run e now orders opts w of (r, w') \<Rightarrow> (Inr r, w'))"
proof -
  assume "2 \<le> length orders"
  then obtain a b rest where "orders = a # b # rest"
    by (cases orders; cases "tl orders") auto
  then show ?thesis
    by (simp add: optimizeRoute_def)
qed

lemma algorithm_names_distinct:
  "PRIORITY_BASED \<noteq> NEAREST_NEIGHBOR" "PRIORITY_BASED \<noteq> GENETIC_ALGORITHM"
  "PRIORITY_BASED \<noteq> OR_TOOLS_VRP" "PRIORITY_BASED \<noteq> HYBRID"
  "NEAREST_NEIGHBOR \<noteq> GENETIC_ALGORITHM" "NEAREST_NEIGHBOR \<noteq> OR_TOOLS_VRP"
  "NEAREST_NEIGHBOR \<noteq> HYBRID" "GENETIC_ALGORITHM \<noteq> OR_TOOLS_VRP"
  "GENETIC_ALGORITHM \<noteq> HYBRID" "OR_TOOLS_VRP \<noteq> HYBRID"
  "PRIORITY_BASED \<noteq> []" "NEAREST_NEIGHBOR \<noteq> []" "GENETIC_ALGORITHM \<noteq> []"
  "OR_TOOLS_VRP \<noteq> []" "HYBRID \<noteq> []"
  by (simp_all add: PRIORITY_BASED_def NEAREST_NEIGHBOR_def GENETIC_ALGORITHM_def
      OR_TOOLS_VRP_def HYBRID_def)

lemma optimizeRoute_default:
  assumes "2 \<le> length orders" and "optAlgorithm opts = None"
  shows "optimizeRoute e now orders opts w =
     (case (if length orders \<le> 3 then priorityBasedOptimization e now orders opts w
            else if length orders \<le> 10 then nearestNeighborOptimization e now orders opts w
            else geneticAlgorithmOptimization e now orders opts w) of
        (r, w') \<Rightarrow> (Inr r, w'))"
  using assms algorithm_names_distinct
  by (simp add: optimizeRoute_many selectOptimalAlgorithm_hybrid Let_def
      orToolsVrpOptimization_def [abs_def])




section \<open>The single-order route\<close>

lemma showNat_small: "n < 10 \<Longrightarrow> showNat n = [digitChar n]"
  by (simp add: showNat.simps)

lemma showNat_5: "showNat 5 = ''5''"
  by (simp add: showNat.simps digitChar_def)

lemma showNat_15: "showNat 15 = ''15''"
  by (simp add: showNat.simps digitChar_def)

lemma sequenceOf_single:
  "sequenceOf [ord] =
     [\<lparr> entryOrder = ord, sequenceNumber = 1, estimatedDeliveryTime = ''15 minutes'' \<rparr>]"
  by (simp add: sequenceOf_def showNat_15)

text \<open>
  Claim C8, as amended. For exactly one order optimizeRoute returns, without touching
  any state, the single-order route: one stop, which is the order with sequence number
  1. No travel distance is computed for it; the reported distance and duration are the
  estimates for one order, \<^verbatim>\<open>5 km\<close> and \<^verbatim>\<open>15 minutes\<close>.
\<close>

theorem single_order_route:
  "optimizeRoute e now [ord] opts w = (Inr (createSingleOrderRoute e now ord), w)
   \<and> optimizedSequence (createSingleOrderRoute e now ord) =
       [\<lparr> entryOrder = ord, sequenceNumber = 1, estimatedDeliveryTime = ''15 minutes'' \<rparr>]
   \<and> totalOrders (createSingleOrderRoute e now ord) = 1
   \<and> algorithm (createSingleOrderRoute e now ord) = ''SINGLE_ORDER''
   \<and> realDistanceCalculated (createSingleOrderRoute e now ord) = None
   \<and> estimatedDistance (createSingleOrderRoute e now ord) = ''5 km''
   \<and> estimatedDuration (createSingleOrderRoute e now ord) = ''15 minutes''"
  by (simp add: optimizeRoute_def createSingleOrderRoute_def formatOptimizationResult_def
      sequenceOf_single showNat_5 showNat_15)

text \<open>The claim as stated fails: the aggregate distance reported for one order is
  \<^verbatim>\<open>5 km\<close>, not zero.\<close>

theorem single_order_distance_counterexample:
  "fst (optimizeRoute offlineEnv 0 [orderA] plainOptions emptyWorld)
     = Inr (createSingleOrderRoute offlineEnv 0 orderA)
   \<and> estimatedDistance (createSingleOrderRoute offlineEnv 0 orderA) = ''5 km''
   \<and> estimatedDistance (createSingleOrderRoute offlineEnv 0 orderA) \<noteq> ''0 km''"
  by (simp add: optimizeRoute_def createSingleOrderRoute_def formatOptimizationResult_def
      showNat_5)

section \<open>Clearing the optimisation state\<close>

lemma clear_absent:
  "routeOptimization w driver = None \<Longrightarrow>
   clearRouteOptimization driver w =
     (Inr \<lparr> respSuccess = True, message = ''No route optimization to clear'',
            respData = None \<rparr>, w)"
  by (simp add: clearRouteOptimization_def prismaDelete_def)

lemma clear_present:
  "routeOptimization w driver = Some row \<Longrightarrow>
   clearRouteOptimization driver w =
     (Inr \<lparr> respSuccess = True, message = ''Route optimization cleared'', respData = None \<rparr>,
      w \<lparr> routeOptimization := (routeOptimization w) (driver := None) \<rparr>)"
  by (simp add: clearRouteOptimization_def prismaDelete_def)

lemma clear_once:
  "reportsSuccess (fst (clearRouteOptimization driver w))
   \<and> routeOptimization (snd (clearRouteOptimization driver w)) driver = None
   \<and> (\<forall>d. d \<noteq> driver \<longrightarrow>
         routeOptimization (snd (clearRouteOptimization driver w)) d = routeOptimization w d)"
  by (cases "routeOptimization w driver") (simp_all add: clear_absent clear_present)

lemma clearRepeatedly_absent:
  "routeOptimization w driver = None \<Longrightarrow>
   list_all reportsSuccess (fst (clearRepeatedly n driver w))
   \<and> length (fst (clearRepeatedly n driver w)) = n
   \<and> snd (clearRepeatedly n driver w) = w"
  by (induction n) (simp_all add: clear_absent case_prod_unfold)

lemma clearRepeatedly_Suc:
  "list_all reportsSuccess (fst (clearRepeatedly (Suc n) driver w))
   \<and> length (fst (clearRepeatedly (Suc n) driver w)) = Suc n
   \<and> routeOptimization (snd (clearRepeatedly (Suc n) driver w)) driver = None
   \<and> (\<forall>d. d \<noteq> driver \<longrightarrow>
         routeOptimization (snd (clearRepeatedly (Suc n) driver w)) d = routeOptimization w d)"
proof -
  obtain r w1 where c: "clearRouteOptimization driver w = (r, w1)"
    by (cases "clearRouteOptimization driver w")
  from clear_once [of driver w] c
  have r: "reportsSuccess r" and none: "routeOptimization w1 driver = None"
    and frame: "\<forall>d. d \<noteq> driver \<longrightarrow> routeOptimization w1 d = routeOptimization w d"
    by simp_all
  from clearRepeatedly_absent [OF none, of n]
  have rest: "list_all reportsSuccess (fst (clearRepeatedly n driver w1))"
    "length (fst (clearRepeatedly n driver w1)) = n" "snd (clearRepeatedly n driver w1) = w1"
    by simp_all
  show ?thesis
    using c r none frame rest by (simp add: case_prod_unfold)
qed

text \<open>
  Claim C10. Clearing for a driver without a stored row does not throw: it answers
  \<^verbatim>\<open>success: true\<close> with a message of its own and changes nothing. Hence clearing is
  idempotent: whatever the state, each of any number (at least one) of consecutive
  clear calls for a driver answers with success, afterwards the driver has no row, and
  the rows of other drivers are as before.
\<close>

theorem clear_idempotent:
  "(routeOptimization w driver = None \<longrightarrow>
      clearRouteOptimization driver w =
        (Inr \<lparr> respSuccess = True, message = ''No route optimization to clear'',
               respData = None \<rparr>, w))
   \<and> ''No route optimization to clear'' \<noteq> ''Route optimization cleared''
   \<and> list_all reportsSuccess (fst (clearRepeatedly (Suc n) driver w))
   \<and> length (fst (clearRepeatedly (Suc n) driver w)) = Suc n
   \<and> routeOptimization (snd (clearRepeatedly (Suc n) driver w)) driver = None
   \<and> (\<forall>d. d \<noteq> driver \<longrightarrow>
         routeOptimization (snd (clearRepeatedly (Suc n) driver w)) d = routeOptimization w d)"
  using clear_absent [of w driver] clearRepeatedly_Suc [of n driver w] by simp

theorem clear_idempotent_witness:
  "routeOptimization emptyWorld ''driver-1'' = None
   \<and> clearRouteOptimization ''driver-1'' emptyWorld =
        (Inr \<lparr> respSuccess = True, message = ''No route optimization to clear'',
               respData = None \<rparr>, emptyWorld)
   \<and> list_all reportsSuccess (fst (clearRepeatedly (Suc 2) ''driver-1'' emptyWorld))
   \<and> routeOptimization (snd (clearRepeatedly (Suc 2) ''driver-1'' emptyWorld)) ''driver-1'' = None"
proof -
  have h: "routeOptimization emptyWorld ''driver-1'' = None"
    by (simp add: emptyWorld_def)
  show ?thesis
    using h clear_idempotent [of emptyWorld "''driver-1''" 2] by simp
qed

section \<open>Idempotent optimisation\<close>

lemma service_cached:
  assumes "routeOptimization w driver = Some row" and "routeOptimized row"
    and "forceRecalculate opts \<noteq> Some True"
    and "getDriverPickedUpOrders driver w \<noteq> []"
  shows "serviceOptimizeRoute e now driver opts w =
           (cachedResponse driver (length (getDriverPickedUpOrders driver w)) row, w)"
proof -
  have "orFalse (forceRecalculate opts) = False"
    using assms(3) by (cases "forceRecalculate opts") (auto simp: orFalse_def)
  then show ?thesis
    using assms by (simp add: serviceOptimizeRoute_def Let_def)
qed

lemma service_no_orders:
  "getDriverPickedUpOrders driver w = [] \<Longrightarrow>
   serviceOptimizeRoute e now driver opts w =
     (\<lparr> respSuccess = False, message = ''No picked up orders found for driver'',
        respData = None \<rparr>, w)"
  by (simp add: serviceOptimizeRoute_def Let_def)

text \<open>
  Claim C1, as amended. For a driver who holds at least one picked-up order and whose
  stored row has \<^verbatim>\<open>routeOptimized = true\<close>, a call without \<^verbatim>\<open>forceRecalculate\<close> answers
  from the row: the stored timestamp, duration and distance, the present order count and
  \<^verbatim>\<open>fromCache: true\<close>. It changes no state: no geocoding and no distance-matrix request
  is made and no heuristic runs (the operation has no directions request at all). A
  further such call, whatever the provider and the clock, returns the very same response.
\<close>

theorem optimize_cached:
  "routeOptimization w driver = Some row \<and> routeOptimized row
   \<and> forceRecalculate opts \<noteq> Some True \<and> getDriverPickedUpOrders driver w \<noteq> [] \<longrightarrow>
     serviceOptimizeRoute e now driver opts w =
       (cachedResponse driver (length (getDriverPickedUpOrders driver w)) row, w)
   \<and> map_option fromCache (respData (fst (serviceOptimizeRoute e now driver opts w)))
       = Some (Some True)
   \<and> map_option respEstimatedDuration (respData (fst (serviceOptimizeRoute e now driver opts w)))
       = Some (rowEstimatedDuration row)
   \<and> map_option respEstimatedDistance (respData (fst (serviceOptimizeRoute e now driver opts w)))
       = Some (rowEstimatedDistance row)
   \<and> map_option respOptimizedAt (respData (fst (serviceOptimizeRoute e now driver opts w)))
       = Some (rowOptimizedAt row)
   \<and> geocodeRequests (snd (serviceOptimizeRoute e now driver opts w)) = geocodeRequests w
   \<and> distanceMatrixRequests (snd (serviceOptimizeRoute e now driver opts w))
       = distanceMatrixRequests w
   \<and> heuristicRuns (snd (serviceOptimizeRoute e now driver opts w)) = heuristicRuns w
   \<and> (forceRecalculate opts2 \<noteq> Some True \<longrightarrow>
        serviceOptimizeRoute e2 now2 driver opts2 (snd (serviceOptimizeRoute e now driver opts w))
          = serviceOptimizeRoute e now driver opts w)"
proof (intro impI)
  assume h: "routeOptimization w driver = Some row \<and> routeOptimized row
   \<and> forceRecalculate opts \<noteq> Some True \<and> getDriverPickedUpOrders driver w \<noteq> []"
  then have first: "serviceOptimizeRoute e now driver opts w =
       (cachedResponse driver (length (getDriverPickedUpOrders driver w)) row, w)"
    using service_cached [of w driver row opts e now] by blast
  have again: "serviceOptimizeRoute e2 now2 driver opts2 w =
       (cachedResponse driver (length (getDriverPickedUpOrders driver w)) row, w)"
    if "forceRecalculate opts2 \<noteq> Some True"
    using h that service_cached [of w driver row opts2 e2 now2] by blast
  show "serviceOptimizeRoute e now driver opts w =
       (cachedResponse driver (length (getDriverPickedUpOrders driver w)) row, w)
   \<and> map_option fromCache (respData (fst (serviceOptimizeRoute e now driver opts w)))
       = Some (Some True)
   \<and> map_option respEstimatedDuration (respData (fst (serviceOptimizeRoute e now driver opts w)))
       = Some (rowEstimatedDuration row)
   \<and> map_option respEstimatedDistance (respData (fst (serviceOptimizeRoute e now driver opts w)))
       = Some (rowEstimatedDistance row)
   \<and> map_option respOptimizedAt (respData (fst (serviceOptimizeRoute e now driver opts w)))
       = Some (rowOptimizedAt row)
   \<and> geocodeRequests (snd (serviceOptimizeRoute e now driver opts w)) = geocodeRequests w
   \<and> distanceMatrixRequests (snd (serviceOptimizeRoute e now driver opts w))
       = distanceMatrixRequests w
   \<and> heuristicRuns (snd (serviceOptimizeRoute e now driver opts w)) = heuristicRuns w
   \<and> (forceRecalculate opts2 \<noteq> Some True \<longrightarrow>
        serviceOptimizeRoute e2 now2 driver opts2 (snd (serviceOptimizeRoute e now driver opts w))
          = serviceOptimizeRoute e now driver opts w)"
    using again by (simp add: first cachedResponse_def)
qed

lemma pickedUp_optimizedWorld: "getDriverPickedUpOrders ''driver-1'' optimizedWorld = [orderA]"
  by (simp add: getDriverPickedUpOrders_def optimizedWorld_def emptyWorld_def orderA_def
      exampleOrder_def arraySort_def)

theorem optimize_cached_witness:
  "routeOptimization optimizedWorld ''driver-1'' = Some storedRow \<and> routeOptimized storedRow
   \<and> forceRecalculate noServiceOptions \<noteq> Some True
   \<and> getDriverPickedUpOrders ''driver-1'' optimizedWorld \<noteq> []
   \<and> serviceOptimizeRoute offlineEnv 5000 ''driver-1'' noServiceOptions optimizedWorld =
       (cachedResponse ''driver-1'' 1 storedRow, optimizedWorld)
   \<and> serviceOptimizeRoute offlineEnv 9000 ''driver-1'' noServiceOptions
        (snd (serviceOptimizeRoute offlineEnv 5000 ''driver-1'' noServiceOptions optimizedWorld))
       = (cachedResponse ''driver-1'' 1 storedRow, optimizedWorld)"
proof -
  have h: "routeOptimization optimizedWorld ''driver-1'' = Some storedRow \<and> routeOptimized storedRow
   \<and> forceRecalculate noServiceOptions \<noteq> Some True
   \<and> getDriverPickedUpOrders ''driver-1'' optimizedWorld \<noteq> []"
    by (simp add: pickedUp_optimizedWorld)
      (simp add: optimizedWorld_def emptyWorld_def storedRow_def noServiceOptions_def)
  have n: "forceRecalculate noServiceOptions \<noteq> Some True"
    using h by blast
  note t = optimize_cached [of optimizedWorld "''driver-1''" storedRow noServiceOptions
      offlineEnv 5000 noServiceOptions offlineEnv 9000]
  have a: "serviceOptimizeRoute offlineEnv 5000 ''driver-1'' noServiceOptions optimizedWorld =
       (cachedResponse ''driver-1'' 1 storedRow, optimizedWorld)"
    using t h by (simp add: pickedUp_optimizedWorld)
  have b: "serviceOptimizeRoute offlineEnv 9000 ''driver-1'' noServiceOptions
        (snd (serviceOptimizeRoute offlineEnv 5000 ''driver-1'' noServiceOptions optimizedWorld))
       = serviceOptimizeRoute offlineEnv 5000 ''driver-1'' noServiceOptions optimizedWorld"
    using t h n by blast
  show ?thesis
    using h a b by simp
qed

text \<open>
  The claim as stated fails for a driver whose row is optimised but who holds no
  picked-up order (all were delivered): the call answers \<^verbatim>\<open>success: false\<close> without data,
  so without \<^verbatim>\<open>fromCache\<close>.
\<close>

theorem optimize_cached_counterexample:
  "routeOptimization deliveredWorld ''driver-1'' = Some storedRow \<and> routeOptimized storedRow
   \<and> serviceOptimizeRoute offlineEnv 5000 ''driver-1'' noServiceOptions deliveredWorld =
       (\<lparr> respSuccess = False, message = ''No picked up orders found for driver'',
          respData = None \<rparr>, deliveredWorld)
   \<and> map_option fromCache
        (respData (fst (serviceOptimizeRoute offlineEnv 5000 ''driver-1'' noServiceOptions
                          deliveredWorld))) \<noteq> Some (Some True)"
proof -
  have none: "getDriverPickedUpOrders ''driver-1'' deliveredWorld = []"
    by (simp add: getDriverPickedUpOrders_def deliveredWorld_def emptyWorld_def orderA_def
        exampleOrder_def arraySort_def)
  have row: "routeOptimization deliveredWorld ''driver-1'' = Some storedRow \<and> routeOptimized storedRow"
    by (simp add: deliveredWorld_def emptyWorld_def storedRow_def)
  show ?thesis
    using row by (simp add: service_no_orders [OF none])
qed

section \<open>The geocode cache\<close>










section \<open>The priority-weighted nearest-neighbour heuristic\<close>

lemma bestCandidate_None:
  "bestCandidate pw dw ds cur unvisited best = None \<longleftrightarrow>
     best = None \<and> (\<forall>x \<in> set unvisited. findDistance ds (order_id cur) (order_id x) = None)"
  by (induction unvisited arbitrary: best) (auto split: option.splits simp: Let_def)

lemma bestCandidate_Some:
  "bestCandidate pw dw ds cur unvisited best = Some (b, s) \<Longrightarrow>
     (best = Some (b, s)
      \<or> (b \<in> set unvisited
          \<and> (\<exists>d. findDistance ds (order_id cur) (order_id b) = Some d \<and> s = score pw dw d b)))
     \<and> (\<forall>b0 s0. best = Some (b0, s0) \<longrightarrow> s \<le> s0)
     \<and> (\<forall>x \<in> set unvisited. \<forall>dx. findDistance ds (order_id cur) (order_id x) = Some dx
            \<longrightarrow> s \<le> score pw dw dx x)"
proof (induction unvisited arbitrary: best)
  case Nil
  then show ?case by simp
next
  case (Cons candidate rest)
  let ?next = "(case findDistance ds (order_id cur) (order_id candidate) of
          None \<Rightarrow> best
        | Some distanceInfo \<Rightarrow>
            (let s = score pw dw distanceInfo candidate
             in case best of
                  None \<Rightarrow> Some (candidate, s)
                | Some (bestNext, bestScore) \<Rightarrow>
                    if s < bestScore then Some (candidate, s) else best))"
  from Cons.prems have run: "bestCandidate pw dw ds cur rest ?next = Some (b, s)"
    by simp
  note ih = Cons.IH [OF run]
  show ?case
  proof (cases "findDistance ds (order_id cur) (order_id candidate)")
    case None
    with ih show ?thesis by auto
  next
    case (Some d)
    show ?thesis
    proof (cases best)
      case None
      with Some ih show ?thesis by (auto simp: Let_def)
    next
      case (Some p)
      obtain b0 s0 where p: "p = (b0, s0)" by (cases p)
      show ?thesis
      proof (cases "score pw dw d candidate < s0")
        case True
        with \<open>findDistance ds (order_id cur) (order_id candidate) = Some d\<close> Some p ih
        show ?thesis by (auto simp: Let_def)
      next
        case False
        with \<open>findDistance ds (order_id cur) (order_id candidate) = Some d\<close> Some p ih
        show ?thesis by (auto simp: Let_def)
      qed
    qed
  qed
qed

lemma bestCandidate_chosen:
  assumes "bestCandidate pw dw ds cur unvisited None = Some (b, s)"
  shows "b \<in> set unvisited"
    and "\<exists>d. findDistance ds (order_id cur) (order_id b) = Some d \<and> s = score pw dw d b"
    and "\<And>x dx. x \<in> set unvisited \<Longrightarrow> findDistance ds (order_id cur) (order_id x) = Some dx
            \<Longrightarrow> s \<le> score pw dw dx x"
  using bestCandidate_Some [OF assms] by auto

lemma arraySort_head_max:
  assumes "arraySort comparePriority unvisited = n # others"
  shows "\<forall>x \<in> set unvisited. priorityValues (priority x) \<le> priorityValues (priority n)"
proof -
  have "sorted_wrt (\<lambda>a b. comparePriority a b \<le> 0) (n # others)"
    using sorted_comparePriority [of unvisited] assms by simp
  then have "\<forall>x \<in> set others. priorityValues (priority x) \<le> priorityValues (priority n)"
    by (simp add: comparePriority_le)
  moreover have "set unvisited = set (n # others)"
    using set_arraySort [of comparePriority unvisited] assms by simp
  ultimately show ?thesis by auto
qed

lemma chosenWell_best:
  assumes best: "bestCandidate pw dw ds cur unvisited None = Some (b, s)"
    and later: "set later = set unvisited"
  shows "chosenWell pw dw ds cur b later"
proof -
  from bestCandidate_chosen [OF best]
  obtain d where mem: "b \<in> set unvisited"
    and d: "findDistance ds (order_id cur) (order_id b) = Some d" "s = score pw dw d b"
    and least: "\<And>x dx. x \<in> set unvisited \<Longrightarrow>
         findDistance ds (order_id cur) (order_id x) = Some dx \<Longrightarrow> s \<le> score pw dw dx x"
    by blast
  have "\<not> list_all (\<lambda>x. findDistance ds (order_id cur) (order_id x) = None) later"
    using mem d later by (auto simp: list_all_iff)
  moreover have "list_all (\<lambda>x. case findDistance ds (order_id cur) (order_id x) of
                      None \<Rightarrow> True
                    | Some dx \<Rightarrow>
                        (case findDistance ds (order_id cur) (order_id b) of
                           None \<Rightarrow> False
                         | Some d \<Rightarrow> score pw dw d b \<le> score pw dw dx x)) later"
    using d least later by (auto simp: list_all_iff split: option.splits)
  ultimately show ?thesis
    by (simp add: chosenWell_def)
qed

lemma chosenWell_fallback:
  assumes none: "bestCandidate pw dw ds cur unvisited None = None"
    and sorted: "arraySort comparePriority unvisited = n # others"
    and later: "set later = set unvisited"
  shows "chosenWell pw dw ds cur n later"
proof -
  have nodata: "\<forall>x \<in> set unvisited. findDistance ds (order_id cur) (order_id x) = None"
    using none by (simp add: bestCandidate_None)
  have "list_all (\<lambda>x. priorityValues (priority x) \<le> priorityValues (priority n)) later"
    using arraySort_head_max [OF sorted] later by (simp add: list_all_iff)
  then show ?thesis
    using nodata later by (simp add: chosenWell_def list_all_iff)
qed

text \<open>The loop appends to the route a greedy arrangement of the unvisited orders.\<close>

lemma nnLoop_spec:
  "\<exists>steps. nnLoop pw dw ds current unvisited route = route @ steps
           \<and> mset steps = mset unvisited \<and> greedyFrom pw dw ds current steps"
proof (induction "length unvisited" arbitrary: unvisited current route rule: less_induct)
  case less
  show ?case
  proof (cases "unvisited = []")
    case True
    then show ?thesis by (simp add: nnLoop.simps)
  next
    case False
    show ?thesis
    proof (cases "bestCandidate pw dw ds current unvisited None")
      case (Some p)
      obtain b s where p: "p = (b, s)" by (cases p)
      with Some have best: "bestCandidate pw dw ds current unvisited None = Some (b, s)" by simp
      have mem: "b \<in> set unvisited"
        by (rule bestCandidate_chosen(1) [OF best])
      then have shorter: "length (remove1 b unvisited) < length unvisited"
        using length_pos_if_in_set [of b unvisited] by (simp add: length_remove1)
      from less [OF shorter, of b "route @ [b]"]
      obtain steps where steps: "nnLoop pw dw ds b (remove1 b unvisited) (route @ [b]) = (route @ [b]) @ steps"
        "mset steps = mset (remove1 b unvisited)" "greedyFrom pw dw ds b steps"
        by blast
      have perm: "mset (b # steps) = mset unvisited"
        using steps(2) mem by simp
      then have "set (b # steps) = set unvisited"
        by (rule mset_eq_setD)
      then have "chosenWell pw dw ds current b (b # steps)"
        by (rule chosenWell_best [OF best])
      with steps(3) have "greedyFrom pw dw ds current (b # steps)" by simp
      moreover have "nnLoop pw dw ds current unvisited route = route @ (b # steps)"
        using False best steps(1) by (subst nnLoop.simps) simp
      ultimately show ?thesis using perm by blast
    next
      case None
      obtain n others where sorted: "arraySort comparePriority unvisited = n # others"
        using False length_arraySort [of comparePriority unvisited]
        by (cases "arraySort comparePriority unvisited") auto
      have len: "length unvisited = Suc (length others)"
        using length_arraySort [of comparePriority unvisited] sorted by simp
      then have shorter: "length others < length unvisited" by simp
      from less [OF shorter, of n "route @ [n]"]
      obtain steps where steps: "nnLoop pw dw ds n others (route @ [n]) = (route @ [n]) @ steps"
        "mset steps = mset others" "greedyFrom pw dw ds n steps"
        by blast
      have perm: "mset (n # steps) = mset unvisited"
        using steps(2) mset_arraySort [of comparePriority unvisited] sorted by simp
      then have "set (n # steps) = set unvisited"
        by (rule mset_eq_setD)
      then have "chosenWell pw dw ds current n (n # steps)"
        by (rule chosenWell_fallback [OF None sorted])
      with steps(3) have "greedyFrom pw dw ds current (n # steps)" by simp
      moreover have "nnLoop pw dw ds current unvisited route = route @ (n # steps)"
        using False None sorted steps(1) by (subst nnLoop.simps) simp
      ultimately show ?thesis using perm by blast
    qed
  qed
qed

lemma greedyFrom_nth:
  "greedyFrom pw dw ds cur steps \<Longrightarrow> k < length steps \<Longrightarrow>
   chosenWell pw dw ds ((cur # steps) ! k) (steps ! k) (drop k steps)"
proof (induction steps arbitrary: cur k)
  case Nil
  then show ?case by simp
next
  case (Cons nxt rest)
  show ?case
  proof (cases k)
    case 0
    with Cons.prems show ?thesis by simp
  next
    case (Suc j)
    with Cons.prems have "greedyFrom pw dw ds nxt rest" "j < length rest" by simp_all
    from Cons.IH [OF this] Suc show ?thesis by simp
  qed
qed

text \<open>The result of nearestNeighborWithPriority on a non-empty array.\<close>

lemma nearestNeighbor_route:
  assumes "orders \<noteq> []"
  shows "\<exists>first steps.
           nearestNeighborWithPriority orders ds opts = map Some (first # steps)
         \<and> mset (first # steps) = mset orders
         \<and> (\<forall>x \<in> set orders. priorityValues (priority x) \<le> priorityValues (priority first))
         \<and> greedyFrom (case optPriorityWeight opts of None \<Rightarrow> 3 / 10 | Some x \<Rightarrow> x)
                      (case optDistanceWeight opts of None \<Rightarrow> 7 / 10 | Some x \<Rightarrow> x)
                      ds first steps"
proof -
  let ?pw = "case optPriorityWeight opts of None \<Rightarrow> 3 / 10 | Some x \<Rightarrow> x"
  let ?dw = "case optDistanceWeight opts of None \<Rightarrow> 7 / 10 | Some x \<Rightarrow> x"
  obtain first unvisited where sorted: "arraySort comparePriority orders = first # unvisited"
    using assms length_arraySort [of comparePriority orders]
    by (cases "arraySort comparePriority orders") auto
  from nnLoop_spec [of ?pw ?dw ds first unvisited "[first]"]
  obtain steps where steps: "nnLoop ?pw ?dw ds first unvisited [first] = [first] @ steps"
    "mset steps = mset unvisited" "greedyFrom ?pw ?dw ds first steps"
    by blast
  have "nearestNeighborWithPriority orders ds opts = map Some (first # steps)"
    using sorted steps(1) by (simp add: nearestNeighborWithPriority_def Let_def)
  moreover have "mset (first # steps) = mset orders"
    using steps(2) mset_arraySort [of comparePriority orders] sorted by simp
  moreover have "\<forall>x \<in> set orders. priorityValues (priority x) \<le> priorityValues (priority first)"
    by (rule arraySort_head_max [OF sorted])
  ultimately show ?thesis using steps(3) by blast
qed

lemma nearestNeighbor_empty: "nearestNeighborWithPriority [] ds opts = [None]"
  by (simp add: nearestNeighborWithPriority_def arraySort_def)

lemma definedStops_map_Some: "definedStops (map Some xs) = xs"
  by (induction xs) auto



lemma chosenWell_nodata:
  assumes "chosenWell pw dw ds cur nxt later"
    and "\<forall>x \<in> set later. findDistance ds (order_id cur) (order_id x) = None"
  shows "\<forall>x \<in> set later. priorityValues (priority x) \<le> priorityValues (priority nxt)"
  using assms by (simp add: chosenWell_def list_all_iff)


text \<open>The heuristic on A (LOW), B (URGENT), C (NORMAL) with the partial distance data:
  B starts; A, which is nearer, beats C; from A there is no data and C follows.\<close>

lemma nn_example:
  "nearestNeighborWithPriority [orderA, orderB, orderC] partialDistances plainOptions
     = map Some [orderB, orderA, orderC]"
  by (simp add: nearestNeighborWithPriority_def plainOptions_def arraySort_def
      comparePriority_def orderA_def orderB_def orderC_def exampleOrder_def nnLoop.simps
      findDistance_def partialDistances_def score_def Let_def)



lemma findDistance_AC:
  "findDistance partialDistances (order_id orderA) (order_id orderC) = None"
  by (simp add: findDistance_def partialDistances_def orderC_def orderA_def exampleOrder_def)


text \<open>
  Claim C5. nearestNeighborWithPriority is a total function: for every order list and
  every distance list, empty or partial, it returns an array and throws nothing. Each
  input order occurs in the result exactly as often as in the input; for a non-empty
  input the result is an arrangement \<open>r\<close> of the orders and nothing else (for the empty
  input it is the one-element array holding \<^verbatim>\<open>undefined\<close>). At a step \<open>k\<close> where no
  unvisited order has distance data from the current order \<open>r ! k\<close>, the order appended
  has the highest priority among the unvisited ones.
\<close>

theorem nearest_neighbor_complete:
  "mset (definedStops (nearestNeighborWithPriority orders ds opts)) = mset orders
   \<and> (orders = [] \<longrightarrow> nearestNeighborWithPriority orders ds opts = [None])
   \<and> (orders \<noteq> [] \<longrightarrow>
       (\<exists>r. nearestNeighborWithPriority orders ds opts = map Some r
          \<and> mset r = mset orders
          \<and> (\<forall>k. Suc k < length r
                  \<and> (\<forall>x \<in> set (drop (Suc k) r).
                        findDistance ds (order_id (r ! k)) (order_id x) = None) \<longrightarrow>
                (\<forall>x \<in> set (drop (Suc k) r).
                   priorityValues (priority x) \<le> priorityValues (priority (r ! Suc k))))))"
proof (cases "orders = []")
  case True
  then show ?thesis
    by (simp add: nearestNeighbor_empty)
next
  case False
  let ?pw = "case optPriorityWeight opts of None \<Rightarrow> 3 / 10 | Some w \<Rightarrow> w"
  let ?dw = "case optDistanceWeight opts of None \<Rightarrow> 7 / 10 | Some w \<Rightarrow> w"
  from nearestNeighbor_route [OF False, of ds opts]
  obtain first steps where r: "nearestNeighborWithPriority orders ds opts = map Some (first # steps)"
    and perm: "mset (first # steps) = mset orders"
    and greedy: "greedyFrom ?pw ?dw ds first steps"
    by blast
  have step: "\<forall>x \<in> set (drop (Suc k) (first # steps)).
                 priorityValues (priority x) \<le> priorityValues (priority ((first # steps) ! Suc k))"
    if "Suc k < length (first # steps)"
      "\<forall>x \<in> set (drop (Suc k) (first # steps)).
          findDistance ds (order_id ((first # steps) ! k)) (order_id x) = None" for k
  proof -
    from that(1) have k: "k < length steps" by simp
    have "chosenWell ?pw ?dw ds ((first # steps) ! k) (steps ! k) (drop k steps)"
      by (rule greedyFrom_nth [OF greedy k])
    from chosenWell_nodata [OF this] that(2) show ?thesis by simp
  qed
  have all: "mset (definedStops (nearestNeighborWithPriority orders ds opts)) = mset orders"
    unfolding r definedStops_map_Some by (rule perm)
  have ex: "\<exists>r. nearestNeighborWithPriority orders ds opts = map Some r
          \<and> mset r = mset orders
          \<and> (\<forall>k. Suc k < length r
                  \<and> (\<forall>x \<in> set (drop (Suc k) r).
                        findDistance ds (order_id (r ! k)) (order_id x) = None) \<longrightarrow>
                (\<forall>x \<in> set (drop (Suc k) r).
                   priorityValues (priority x) \<le> priorityValues (priority (r ! Suc k))))"
    using r perm step by (intro exI [of _ "first # steps"]) blast
  show ?thesis
    using False all ex by blast
qed

theorem nearest_neighbor_complete_witness:
  "[orderA, orderB, orderC] \<noteq> []
   \<and> mset (definedStops
        (nearestNeighborWithPriority [orderA, orderB, orderC] partialDistances plainOptions))
       = mset [orderA, orderB, orderC]
   \<and> nearestNeighborWithPriority [orderA, orderB, orderC] partialDistances plainOptions
       = map Some [orderB, orderA, orderC]
   \<and> findDistance partialDistances (order_id orderA) (order_id orderC) = None
   \<and> nearestNeighborWithPriority [] partialDistances plainOptions = [None]"
proof -
  note t = nearest_neighbor_complete [of "[orderA, orderB, orderC]" partialDistances plainOptions]
  have a: "mset (definedStops
        (nearestNeighborWithPriority [orderA, orderB, orderC] partialDistances plainOptions))
       = mset [orderA, orderB, orderC]"
    using t by blast
  have b: "nearestNeighborWithPriority [] partialDistances plainOptions = [None]"
    using nearest_neighbor_complete [of "[]" partialDistances plainOptions] by blast
  show ?thesis
    using a b nn_example findDistance_AC by simp
qed

section \<open>The four-order example, evaluated\<close>

lemma geocode_four:
  "fst (geocodeOrders exampleEnv 0 fourOrders emptyWorld) = fourGeocoded"
  by (simp add: fourOrders_def fourGeocoded_def resolved_def exampleOrder_def geocodeAddress_def
      getCachedCoordinates_def cacheCoordinates_def createAddressHash_def exampleEnv_def
      exampleGeocodeApi_def emptyWorld_def Let_def trim_def toLowerCase_def lowerChar_def
      isWhiteSpace_def exampleLocation_def)

lemma points_four:
  "deliveryPointsOf fourGeocoded =
     [\<lparr> orderId = ''o1'', pointLatitude = Some 30, pointLongitude = Some (3100 / 100),
        address = ''street o1'' \<rparr>,
      \<lparr> orderId = ''o2'', pointLatitude = Some 30, pointLongitude = Some (3102 / 100),
        address = ''street o2'' \<rparr>,
      \<lparr> orderId = ''o3'', pointLatitude = Some 30, pointLongitude = Some (3101 / 100),
        address = ''street o3'' \<rparr>,
      \<lparr> orderId = ''o4'', pointLatitude = Some 30, pointLongitude = Some (3103 / 100),
        address = ''street o4'' \<rparr>]"
  by (simp add: deliveryPointsOf_def fourGeocoded_def fourOrders_def resolved_def exampleOrder_def
      toPoint_def truthy_def exampleLocation_def)

lemma distances_four:
  "fst (calculateDeliveryDistances exampleEnv (deliveryPointsOf fourGeocoded) w) =
     Inr \<lparr> distances = fourDistances, totalPoints = 4, successfulCalculations = 16 \<rparr>"
  by (simp add: points_four calculateDeliveryDistances_def exampleEnv_def exampleRows_def
      along_def processDistanceMatrixResponse_def formatForRouteOptimization_def
      fourDistances_def edge_def
      Let_def enumerate_eq_zip upt_rec)

lemma route_four:
  "nearestNeighborWithPriority fourGeocoded fourDistances plainOptions =
     map Some [resolved (exampleOrder ''o1'' NORMAL 1), resolved (exampleOrder ''o3'' NORMAL 3),
               resolved (exampleOrder ''o2'' NORMAL 2), resolved (exampleOrder ''o4'' NORMAL 4)]"
  by (simp add: nearestNeighborWithPriority_def plainOptions_def arraySort_def
      comparePriority_def fourGeocoded_def fourOrders_def resolved_def exampleOrder_def
      nnLoop.simps findDistance_def fourDistances_def edge_def score_def Let_def)

section \<open>The multi-start routine\<close>










section \<open>The reported route duration\<close>

lemma nearestNeighborOptimization_ok:
  assumes g: "fst (geocodeOrders e now orders w) = g"
    and two: "2 \<le> length (deliveryPointsOf g)"
    and dd: "fst (calculateDeliveryDistances e (deliveryPointsOf g)
                   (snd (geocodeOrders e now orders w))) = Inr dd"
  shows "fst (nearestNeighborOptimization e now orders opts w) =
           formatOptimizationResult e now
             (definedStops (nearestNeighborWithPriority g (distances dd) opts))
             (mkMetadata NEAREST_NEIGHBOR (includeTraffic opts) ''25-40%'' (Some dd) None)"
proof -
  obtain w1 where gw: "geocodeOrders e now orders w = (g, w1)"
    using g by (cases "geocodeOrders e now orders w") simp
  obtain w2 where cw: "calculateDeliveryDistances e (deliveryPointsOf g) w1 = (Inr dd, w2)"
    using dd gw by (cases "calculateDeliveryDistances e (deliveryPointsOf g) w1") simp
  show ?thesis
    using gw two cw by (simp add: nearestNeighborOptimization_def)
qed

lemma optimize_four:
  "fst (optimizeRoute exampleEnv 0 fourOrders plainOptions emptyWorld) =
     Inr (formatOptimizationResult exampleEnv 0
            [resolved (exampleOrder ''o1'' NORMAL 1), resolved (exampleOrder ''o3'' NORMAL 3),
             resolved (exampleOrder ''o2'' NORMAL 2), resolved (exampleOrder ''o4'' NORMAL 4)]
            (mkMetadata NEAREST_NEIGHBOR False ''25-40%''
               (Some \<lparr> distances = fourDistances, totalPoints = 4,
                       successfulCalculations = 16 \<rparr>) None))"
proof -
  have two: "2 \<le> length (deliveryPointsOf fourGeocoded)"
    by (simp add: points_four)
  have len: "2 \<le> length fourOrders" "\<not> length fourOrders \<le> 3" "length fourOrders \<le> 10"
    by (simp_all add: fourOrders_def)
  have none: "optAlgorithm plainOptions = None" "includeTraffic plainOptions = False"
    by (simp_all add: plainOptions_def)
  have "optimizeRoute exampleEnv 0 fourOrders plainOptions emptyWorld =
          (case nearestNeighborOptimization exampleEnv 0 fourOrders plainOptions emptyWorld of
             (r, w') \<Rightarrow> (Inr r, w'))"
    using optimizeRoute_default [OF len(1) none(1), of exampleEnv 0 emptyWorld] len(2,3)
    by simp
  then have "fst (optimizeRoute exampleEnv 0 fourOrders plainOptions emptyWorld) =
          Inr (fst (nearestNeighborOptimization exampleEnv 0 fourOrders plainOptions emptyWorld))"
    by (simp add: case_prod_unfold)
  also have "fst (nearestNeighborOptimization exampleEnv 0 fourOrders plainOptions emptyWorld) =
          formatOptimizationResult exampleEnv 0
             (definedStops (nearestNeighborWithPriority fourGeocoded fourDistances plainOptions))
             (mkMetadata NEAREST_NEIGHBOR (includeTraffic plainOptions) ''25-40%''
                (Some \<lparr> distances = fourDistances, totalPoints = 4,
                        successfulCalculations = 16 \<rparr>) None)"
    using nearestNeighborOptimization_ok [OF geocode_four two distances_four, of plainOptions]
    by simp
  finally show ?thesis
    by (simp add: route_four definedStops_map_Some none)
qed

text \<open>
  Claim C9 on the four example orders, held as o1, o2, o3, o4 and all resolved, with the
  full example matrix. The selected heuristic is the priority-weighted nearest neighbour
  and the emitted sequence is o1, o3, o2, o4, whose consecutive edges take 60 + 60 + 60
  seconds in traffic, 3 minutes. The reported duration is 5 minutes: calculateRouteTotals
  is handed the positions 0, 1, 2, 3 of the optimised array as indices and so adds up the
  edges between the delivery points 0 and 1, 1 and 2, 2 and 3, which are the edges
  o1 to o2, o2 to o3 and o3 to o4 of the input arrangement (120 + 60 + 120 seconds).
\<close>

theorem route_duration_not_along_sequence:
  "(case fst (optimizeRoute exampleEnv 0 fourOrders plainOptions emptyWorld) of
      Inl err \<Rightarrow> False
    | Inr r \<Rightarrow>
        algorithm r = NEAREST_NEIGHBOR
        \<and> map order_id (map entryOrder (optimizedSequence r)) = [''o1'', ''o3'', ''o2'', ''o4'']
        \<and> calculateRouteDistance (map entryOrder (optimizedSequence r)) fourDistances = 180
        \<and> formatDuration 180 = ''3m''
        \<and> estimatedDuration r = ''5m''
        \<and> estimatedDuration r = formatDuration (120 + 60 + 120))"
proof -
  let ?route = "[resolved (exampleOrder ''o1'' NORMAL 1), resolved (exampleOrder ''o3'' NORMAL 3),
             resolved (exampleOrder ''o2'' NORMAL 2), resolved (exampleOrder ''o4'' NORMAL 4)]"
  let ?meta = "mkMetadata NEAREST_NEIGHBOR False ''25-40%''
               (Some \<lparr> distances = fourDistances, totalPoints = 4,
                       successfulCalculations = 16 \<rparr>) None"
  have alg: "algorithm (formatOptimizationResult exampleEnv 0 ?route ?meta) = NEAREST_NEIGHBOR"
    by (simp add: formatOptimizationResult_def mkMetadata_def Let_def NEAREST_NEIGHBOR_def)
  have ids: "map order_id ?route = [''o1'', ''o3'', ''o2'', ''o4'']"
    by (simp add: resolved_def exampleOrder_def)
  have along: "calculateRouteDistance ?route fourDistances = 180"
    by (simp add: calculateRouteDistance_def findDistance_def fourDistances_def edge_def
        resolved_def exampleOrder_def)
  have f3: "formatDuration 180 = ''3m''"
    by (simp add: formatDuration_def showNat.simps digitChar_def)
  have f35: "formatDuration (120 + 60 + 120) = ''5m''"
    by (simp add: formatDuration_def showNat.simps digitChar_def)
  have reported: "estimatedDuration (formatOptimizationResult exampleEnv 0 ?route ?meta)
                    = formatDuration 300"
    by (simp add: formatOptimizationResult_def mkMetadata_def calculateRouteTotals_def
        NEAREST_NEIGHBOR_def fourDistances_def edge_def upt_rec Let_def)
  show ?thesis
    using alg ids along f3 f35 reported
    by (simp add: optimize_four optimizedSequence_format map_entryOrder_sequenceOf)
qed

text \<open>In general the reported totals depend on the number of stops only, not on their
  arrangement: the route points are looked up by their positions.\<close>

lemma routeTotalsLoop_indices:
  "map snd ps = map snd qs \<Longrightarrow> routeTotalsLoop ps ds acc = routeTotalsLoop qs ds acc"
proof (induction ps ds acc arbitrary: qs rule: routeTotalsLoop.induct)
  case (1 p q rest ds meters dur traffic)
  from "1.prems" obtain p' q' rest' where qs: "qs = p' # q' # rest'"
    and eq: "snd p = snd p'" "snd q = snd q'" "map snd rest = map snd rest'"
    by (auto simp: Cons_eq_map_conv)
  have "map snd (q # rest) = map snd (q' # rest')"
    using eq by simp
  from "1.IH" [OF this] eq show ?case
    by (simp add: qs)
next
  case (2 p ds acc)
  then show ?case by (auto simp: Cons_eq_map_conv)
next
  case (3 ds acc)
  then show ?case by simp
qed

lemma reported_duration_ignores_arrangement:
  assumes "length r1 = length r2"
  shows "estimatedDuration (formatOptimizationResult e now r1 meta)
           = estimatedDuration (formatOptimizationResult e now r2 meta)"
proof -
  have "map snd (zip r1 [0 ..< length r1]) = map snd (zip r2 [0 ..< length r2])"
    using assms by simp
  then have "routeTotalsLoop (zip r1 [0 ..< length r1]) ds acc
               = routeTotalsLoop (zip r2 [0 ..< length r2]) ds acc" for ds acc
    by (rule routeTotalsLoop_indices)
  then show ?thesis
    using assms
    by (simp add: formatOptimizationResult_def calculateRouteTotals_def Let_def
        split: option.splits)
qed

end
